theory Spec2Isabelle
  imports Main
begin

section \<open>Values, exceptions and the outside world\<close>

text \<open>
  The program is \<^verbatim>\<open>src/twitch_go.py\<close>. Everything it learns from outside (HTTP
  replies of the Twitch API, lines typed by the user, answers of the OBS websocket)
  arrives as decoded JSON, strings and booleans. JSON numbers are kept as integers: the
  program only tests them for truth and never computes with them.
\<close>

datatype json =
    JNull
  | JBool bool
  | JNum int
  | JStr string
  | JArr "json list"
  | JObj "(string \<times> json) list"

text \<open>
  The exceptions that can leave a function of the program. \<open>HTTPError\<close> is raised by
  \<^verbatim>\<open>raise_for_status\<close> and carries the status code; \<open>ConnectionError\<close> stands for
  every failure of \<^verbatim>\<open>requests\<close> that has no HTTP response (refused connection,
  timeout); \<open>SystemExit n msg\<close> is \<^verbatim>\<open>sys.exit(n)\<close> after the line
  \<^verbatim>\<open>ERROR: msg\<close> was printed.
\<close>

datatype error =
    HTTPError nat
  | ConnectionError
  | JSONDecodeError
  | KeyError json
  | IndexError
  | TypeError
  | ValueError
  | EOFError
  | OBSSDKError
  | SystemExit nat string

datatype response = Response (status_code: nat) (content: "json option")

datatype hdr = Bearer json | Plain string

text \<open>
  Every interaction with the outside is a \<open>call\<close>. The three HTTP verbs carry the URL
  and the keyword arguments the source passes (\<^verbatim>\<open>data\<close>, \<^verbatim>\<open>headers\<close>,
  \<^verbatim>\<open>params\<close>, \<^verbatim>\<open>json\<close>); \<open>ReqClient\<close> is the connection to OBS; \<open>Prompt\<close> is
  the read of \<^verbatim>\<open>prompt(label, default)\<close> and \<open>Input\<close> a bare \<^verbatim>\<open>input(text)\<close>;
  \<open>Editor\<close> is \<^verbatim>\<open>subprocess.run([editor, path])\<close>. Console output is not recorded.
\<close>

datatype call =
    Post string "(string \<times> json) list"
  | Get string "(string \<times> hdr) list" "(string \<times> json) list"
  | Patch string "(string \<times> hdr) list" "(string \<times> json) list" "(string \<times> json) list"
  | ReqClient string int string
  | Get_stream_status
  | Start_stream
  | Stop_stream
  | Prompt string string
  | Input string
  | Editor string

text \<open>
  The outside world answers a call as a function of everything the program has done so
  far, the call itself being the last element of the history. \<open>http\<close> gives the
  response, or \<open>None\<close> when there is none; \<open>stdin\<close> gives the line typed, or
  \<open>None\<close> at end of input; \<open>obs\<close> gives \<open>None\<close> when the websocket client raises,
  and otherwise the flag \<^verbatim>\<open>output_active\<close> (read only after \<open>Get_stream_status\<close>).
\<close>

record world =
  http :: "call list \<Rightarrow> response option"
  stdin :: "call list \<Rightarrow> string option"
  obs :: "call list \<Rightarrow> bool option"

text \<open>
  The state the program changes: the calls made so far and the content of
  \<^verbatim>\<open>~/.twitch-go/tokens.json\<close> (\<open>None\<close> when the file does not exist). The file
  holds \<^verbatim>\<open>json.dumps(tokens, indent=2)\<close>; it is represented by the value it encodes.
\<close>

record state =
  trace :: "call list"
  token_file :: "json option"

type_synonym 'a prog = "state \<Rightarrow> (error + 'a) \<times> state"

definition ret :: "'a \<Rightarrow> 'a prog" where
  "ret x = (\<lambda>s. (Inr x, s))"

definition raise :: "error \<Rightarrow> 'a prog" where
  "raise e = (\<lambda>s. (Inl e, s))"

definition lift :: "error + 'a \<Rightarrow> 'a prog" where
  "lift r = (\<lambda>s. (r, s))"

definition bnd :: "'a prog \<Rightarrow> ('a \<Rightarrow> 'b prog) \<Rightarrow> 'b prog" where
  "bnd m f = (\<lambda>s. case m s of (Inl e, s') \<Rightarrow> (Inl e, s') | (Inr x, s') \<Rightarrow> f x s')"

text \<open>\<^verbatim>\<open>try: m  except requests.HTTPError: h\<close>. No other exception is caught.\<close>

definition except_HTTPError :: "'a prog \<Rightarrow> 'a prog \<Rightarrow> 'a prog" where
  "except_HTTPError m h =
     (\<lambda>s. case m s of
             (Inl (HTTPError n), s') \<Rightarrow> h s'
           | (r, s') \<Rightarrow> (r, s'))"

subsection \<open>Python values\<close>

text \<open>Truth of a value, as \<^verbatim>\<open>if v:\<close> and \<^verbatim>\<open>not v\<close> test it.\<close>

fun truthy :: "json \<Rightarrow> bool" where
  "truthy JNull = False"
| "truthy (JBool b) = b"
| "truthy (JNum n) = (n \<noteq> 0)"
| "truthy (JStr s) = (s \<noteq> [])"
| "truthy (JArr xs) = (xs \<noteq> [])"
| "truthy (JObj kvs) = (kvs \<noteq> [])"

text \<open>\<^verbatim>\<open>v[k]\<close> for a string key \<open>k\<close>: only a dict has string keys.\<close>

fun getitem :: "json \<Rightarrow> string \<Rightarrow> error + json" where
  "getitem (JObj kvs) k =
     (case map_of kvs k of None \<Rightarrow> Inl (KeyError (JStr k)) | Some v \<Rightarrow> Inr v)"
| "getitem _ k = Inl TypeError"

text \<open>
  \<^verbatim>\<open>v[0]\<close>: the first element of a list, the first character of a string; a dict
  decoded from JSON has no key \<open>0\<close>.
\<close>

fun getitem0 :: "json \<Rightarrow> error + json" where
  "getitem0 (JArr xs) = (case xs of [] \<Rightarrow> Inl IndexError | x # _ \<Rightarrow> Inr x)"
| "getitem0 (JStr s) = (case s of [] \<Rightarrow> Inl IndexError | c # _ \<Rightarrow> Inr (JStr [c]))"
| "getitem0 (JObj kvs) = Inl (KeyError (JNum 0))"
| "getitem0 _ = Inl TypeError"

text \<open>
  \<^verbatim>\<open>str.strip()\<close> and \<^verbatim>\<open>str.lower()\<close>, on the ASCII range. Python also
  strips the Unicode spaces beyond ASCII (U+0085, U+00A0 and others) and lowers the
  letters beyond ASCII; here such characters are left as they are. The one comparison
  the program makes after \<^verbatim>\<open>lower\<close>, with \<open>n\<close>, does not depend on it.
\<close>

definition isspace :: "char \<Rightarrow> bool" where
  "isspace c = (let n = (of_char c :: nat) in (9 \<le> n \<and> n \<le> 13) \<or> (28 \<le> n \<and> n \<le> 32))"

definition strip :: "string \<Rightarrow> string" where
  "strip s = rev (dropWhile isspace (rev (dropWhile isspace s)))"

definition lower_char :: "char \<Rightarrow> char" where
  "lower_char c =
     (let n = (of_char c :: nat) in if 65 \<le> n \<and> n \<le> 90 then char_of (n + 32) else c)"

definition lower :: "string \<Rightarrow> string" where
  "lower s = map lower_char s"

subsection \<open>The libraries: requests, obsws\_python, input\<close>

text \<open>
  \<^verbatim>\<open>requests.get/post/patch\<close>: the call is recorded, then the world answers; no
  response is an exception that is not an \<open>HTTPError\<close>.
\<close>

definition requests :: "world \<Rightarrow> call \<Rightarrow> response prog" where
  "requests w c =
     (\<lambda>s. let t = trace s @ [c]; s' = s\<lparr>trace := t\<rparr>
          in case http w t of
               None \<Rightarrow> (Inl ConnectionError, s')
             | Some r \<Rightarrow> (Inr r, s'))"

text \<open>\<^verbatim>\<open>r.raise_for_status()\<close> raises for the status codes 400 to 599.\<close>

definition raise_for_status :: "response \<Rightarrow> error + unit" where
  "raise_for_status r =
     (if 400 \<le> status_code r \<and> status_code r < 600 then Inl (HTTPError (status_code r))
      else Inr ())"

definition response_json :: "response \<Rightarrow> error + json" where
  "response_json r = (case content r of None \<Rightarrow> Inl JSONDecodeError | Some j \<Rightarrow> Inr j)"

definition obs_call :: "world \<Rightarrow> call \<Rightarrow> bool prog" where
  "obs_call w c =
     (\<lambda>s. let t = trace s @ [c]; s' = s\<lparr>trace := t\<rparr>
          in case obs w t of
               None \<Rightarrow> (Inl OBSSDKError, s')
             | Some b \<Rightarrow> (Inr b, s'))"

definition read_line :: "world \<Rightarrow> call \<Rightarrow> string prog" where
  "read_line w c =
     (\<lambda>s. let t = trace s @ [c]; s' = s\<lparr>trace := t\<rparr>
          in case stdin w t of
               None \<Rightarrow> (Inl EOFError, s')
             | Some l \<Rightarrow> (Inr l, s'))"

section \<open>The program\<close>

subsection \<open>Module level: environment and constants\<close>

record globals =
  CLIENT_ID :: string
  CLIENT_SECRET :: string
  REDIRECT_URI :: string
  OBS_HOST :: string
  OBS_PORT :: int
  OBS_PASSWORD :: "string option"

definition API_BASE :: string where
  "API_BASE = ''https://api.twitch.tv/helix''"

definition OAUTH_BASE :: string where
  "OAUTH_BASE = ''https://id.twitch.tv/oauth2''"

definition die :: "string \<Rightarrow> 'a prog" where
  "die msg = raise (SystemExit 1 msg)"

text \<open>
  \<^verbatim>\<open>str(KeyError(k))\<close> is the key in single quotes.
\<close>

definition quoted :: "string \<Rightarrow> string" where
  "quoted k = [CHR 0x27] @ k @ [CHR 0x27]"

text \<open>
  Lines 155 to 164, run when the module is loaded, on the process environment as it is
  after \<^verbatim>\<open>load_dotenv\<close>. (The first-run \<^verbatim>\<open>bootstrap\<close> of lines 91 to 120,
  which writes the example files and may end the process with status 0, comes before and
  is not part of the model.) The three Twitch variables are read with \<^verbatim>\<open>os.environ[...]\<close>,
  in this order, and a missing one ends the process through \<^verbatim>\<open>die\<close>; the three
  OBS variables are read with \<^verbatim>\<open>os.environ.get\<close>. \<open>py_int\<close> is Python's built-in
  \<^verbatim>\<open>int\<close> on strings (\<open>None\<close> when it raises \<open>ValueError\<close>).
\<close>

definition load_environment ::
  "(string \<Rightarrow> int option) \<Rightarrow> (string \<rightharpoonup> string) \<Rightarrow> globals prog" where
  "load_environment py_int environ =
     (case environ ''TWITCH_CLIENT_ID'' of
        None \<Rightarrow> die (''Missing required environment variable: '' @ quoted ''TWITCH_CLIENT_ID'')
      | Some cid \<Rightarrow>
     (case environ ''TWITCH_CLIENT_SECRET'' of
        None \<Rightarrow> die (''Missing required environment variable: '' @ quoted ''TWITCH_CLIENT_SECRET'')
      | Some secret \<Rightarrow>
     (case environ ''TWITCH_REDIRECT_URI'' of
        None \<Rightarrow> die (''Missing required environment variable: '' @ quoted ''TWITCH_REDIRECT_URI'')
      | Some uri \<Rightarrow>
     (let host = (case environ ''OBS_WS_HOST'' of None \<Rightarrow> ''localhost'' | Some h \<Rightarrow> h) in
      case (case environ ''OBS_WS_PORT'' of None \<Rightarrow> Some 4455 | Some p \<Rightarrow> py_int p) of
        None \<Rightarrow> raise ValueError
      | Some port \<Rightarrow>
          ret \<lparr>CLIENT_ID = cid, CLIENT_SECRET = secret, REDIRECT_URI = uri,
               OBS_HOST = host, OBS_PORT = port,
               OBS_PASSWORD = environ ''OBS_WS_PASSWORD''\<rparr>))))"

subsection \<open>Configuration\<close>

text \<open>
  \<^verbatim>\<open>config.yaml\<close> as \<^verbatim>\<open>load_config\<close> returns it, already validated: a preset has
  its game, its defaults and, optionally, its tags; the two switches under
  \<^verbatim>\<open>defaults\<close> are optional (\<open>None\<close> when the key is absent) and are read with
  \<^verbatim>\<open>.get(key, True)\<close>.
\<close>

record preset =
  game_name :: string
  game_category :: string
  defaults_title :: string
  defaults_go_live_notification :: string
  preset_tags :: "string list option"

record config =
  prompts_confirm :: "bool option"
  obs_auto_start :: "bool option"
  presets :: "(string \<times> preset) list"

definition get_preset :: "config \<Rightarrow> string \<Rightarrow> preset prog" where
  "get_preset cfg key =
     (case map_of (presets cfg) key of
        None \<Rightarrow> die (''Unknown preset: '' @ key)
      | Some p \<Rightarrow> ret p)"

subsection \<open>Utilities\<close>

definition prompt :: "world \<Rightarrow> string \<Rightarrow> string \<Rightarrow> string prog" where
  "prompt w label dflt =
     bnd (read_line w (Prompt label dflt)) (\<lambda>line.
     let v = strip line in ret (if v \<noteq> [] then v else dflt))"

definition input :: "world \<Rightarrow> string \<Rightarrow> string prog" where
  "input w text = read_line w (Input text)"

datatype path = CONFIG_FILE | CONFIG_EXAMPLE | ENV_FILE | ENV_EXAMPLE

definition path_name :: "path \<Rightarrow> string" where
  "path_name p =
     (case p of
        CONFIG_FILE \<Rightarrow> ''~/.twitch-go/config.yaml''
      | CONFIG_EXAMPLE \<Rightarrow> ''~/.twitch-go/config.example.yaml''
      | ENV_FILE \<Rightarrow> ''~/.twitch-go/.env''
      | ENV_EXAMPLE \<Rightarrow> ''~/.twitch-go/.env.example'')"

definition open_editor :: "path \<Rightarrow> unit prog" where
  "open_editor p = (\<lambda>s. (Inr (), s\<lparr>trace := trace s @ [Editor (path_name p)]\<rparr>))"

subsection \<open>OAuth helpers\<close>

definition exchange_code :: "world \<Rightarrow> globals \<Rightarrow> string \<Rightarrow> json prog" where
  "exchange_code w g code =
     bnd (requests w (Post (OAUTH_BASE @ ''/token'')
            [(''client_id'', JStr (CLIENT_ID g)),
             (''client_secret'', JStr (CLIENT_SECRET g)),
             (''code'', JStr code),
             (''grant_type'', JStr ''authorization_code''),
             (''redirect_uri'', JStr (REDIRECT_URI g))])) (\<lambda>r.
     bnd (lift (raise_for_status r)) (\<lambda>_.
     lift (response_json r)))"

definition refresh_tokens :: "world \<Rightarrow> globals \<Rightarrow> json \<Rightarrow> json prog" where
  "refresh_tokens w g refresh_token =
     bnd (requests w (Post (OAUTH_BASE @ ''/token'')
            [(''client_id'', JStr (CLIENT_ID g)),
             (''client_secret'', JStr (CLIENT_SECRET g)),
             (''refresh_token'', refresh_token),
             (''grant_type'', JStr ''refresh_token'')])) (\<lambda>r.
     bnd (lift (raise_for_status r)) (\<lambda>_.
     lift (response_json r)))"

text \<open>\<^verbatim>\<open>load_tokens\<close> returns Python's \<open>None\<close> (here \<open>JNull\<close>) when there is no file.\<close>

definition load_tokens :: "json prog" where
  "load_tokens = (\<lambda>s. (Inr (case token_file s of None \<Rightarrow> JNull | Some j \<Rightarrow> j), s))"

definition save_tokens :: "json \<Rightarrow> unit prog" where
  "save_tokens tokens = (\<lambda>s. (Inr (), s\<lparr>token_file := Some tokens\<rparr>))"

subsection \<open>Twitch API helpers\<close>

definition headers :: "globals \<Rightarrow> json \<Rightarrow> (string \<times> hdr) list" where
  "headers g token =
     [(''Authorization'', Bearer token),
      (''Client-Id'', Plain (CLIENT_ID g)),
      (''Content-Type'', Plain ''application/json'')]"

definition get_broadcaster_id :: "world \<Rightarrow> globals \<Rightarrow> json \<Rightarrow> json prog" where
  "get_broadcaster_id w g token =
     bnd (requests w (Get (API_BASE @ ''/users'') (headers g token) [])) (\<lambda>r.
     bnd (lift (raise_for_status r)) (\<lambda>_.
     bnd (lift (response_json r)) (\<lambda>j.
     bnd (lift (getitem j ''data'')) (\<lambda>data.
     bnd (lift (getitem0 data)) (\<lambda>first.
     lift (getitem first ''id''))))))"

definition get_game_id :: "world \<Rightarrow> globals \<Rightarrow> json \<Rightarrow> string \<Rightarrow> json prog" where
  "get_game_id w g token name =
     bnd (requests w (Get (API_BASE @ ''/games'') (headers g token)
            [(''name'', JStr name)])) (\<lambda>r.
     bnd (lift (raise_for_status r)) (\<lambda>_.
     bnd (lift (response_json r)) (\<lambda>j.
     bnd (lift (getitem j ''data'')) (\<lambda>data.
     if \<not> truthy data then die (''Game not found on Twitch: '' @ name)
     else bnd (lift (getitem0 data)) (\<lambda>first.
          lift (getitem first ''id''))))))"

definition update_channel ::
  "world \<Rightarrow> globals \<Rightarrow> json \<Rightarrow> json \<Rightarrow> (string \<times> json) list \<Rightarrow> unit prog" where
  "update_channel w g token broadcaster_id payload =
     bnd (requests w (Patch (API_BASE @ ''/channels'') (headers g token)
            [(''broadcaster_id'', broadcaster_id)] payload)) (\<lambda>r.
     lift (raise_for_status r))"

subsection \<open>OBS\<close>

definition start_obs :: "world \<Rightarrow> globals \<Rightarrow> unit prog" where
  "start_obs w g =
     (case OBS_PASSWORD g of
        None \<Rightarrow> die ''OBS_WS_PASSWORD not set''
      | Some password \<Rightarrow>
          if password = [] then die ''OBS_WS_PASSWORD not set''
          else
            bnd (obs_call w (ReqClient (OBS_HOST g) (OBS_PORT g) password)) (\<lambda>_.
            bnd (obs_call w Get_stream_status) (\<lambda>output_active.
            if \<not> output_active then bnd (obs_call w Start_stream) (\<lambda>_. ret ())
            else ret ())))"

definition stop_obs :: "world \<Rightarrow> globals \<Rightarrow> unit prog" where
  "stop_obs w g =
     (case OBS_PASSWORD g of
        None \<Rightarrow> die ''OBS_WS_PASSWORD not set''
      | Some password \<Rightarrow>
          if password = [] then die ''OBS_WS_PASSWORD not set''
          else
            bnd (obs_call w (ReqClient (OBS_HOST g) (OBS_PORT g) password)) (\<lambda>_.
            bnd (obs_call w Get_stream_status) (\<lambda>output_active.
            if output_active then bnd (obs_call w Stop_stream) (\<lambda>_. ret ())
            else ret ())))"

subsection \<open>Commands\<close>

definition edit_command :: "string option \<Rightarrow> unit prog" where
  "edit_command arg =
     (if arg = None \<or> arg = Some ''config'' then open_editor CONFIG_FILE
      else if arg = Some ''env'' then open_editor ENV_FILE
      else if arg = Some ''examples'' then
        bnd (open_editor CONFIG_EXAMPLE) (\<lambda>_. open_editor ENV_EXAMPLE)
      else die ''Usage: twitch-go edit [config|env|examples]'')"

text \<open>
  \<^verbatim>\<open>run_preset\<close>, lines 390 to 396: the stored tokens, or the authorization-code grant
  when there are none (no file, or a file whose value is false in Python).
\<close>

definition run_preset_tokens :: "world \<Rightarrow> globals \<Rightarrow> json prog" where
  "run_preset_tokens w g =
     bnd load_tokens (\<lambda>tokens.
     if \<not> truthy tokens then
       bnd (input w (CHR 0x0A # ''Paste ?code= value:'' @ CHR 0x0A # ''> '')) (\<lambda>line.
       let code = strip line in
       bnd (exchange_code w g code) (\<lambda>tokens.
       bnd (save_tokens tokens) (\<lambda>_.
       ret tokens)))
     else ret tokens)"

text \<open>
  \<^verbatim>\<open>run_preset\<close>, lines 398 to 405: the body of the \<^verbatim>\<open>try\<close> statement, its handler,
  and the statement. Each yields the two variables the rest of the function reads.
\<close>

definition run_preset_try :: "world \<Rightarrow> globals \<Rightarrow> json \<Rightarrow> (json \<times> json) prog" where
  "run_preset_try w g tokens =
     bnd (lift (getitem tokens ''access_token'')) (\<lambda>access_token.
     bnd (get_broadcaster_id w g access_token) (\<lambda>broadcaster_id.
     ret (access_token, broadcaster_id)))"

definition run_preset_except :: "world \<Rightarrow> globals \<Rightarrow> json \<Rightarrow> (json \<times> json) prog" where
  "run_preset_except w g tokens =
     bnd (lift (getitem tokens ''refresh_token'')) (\<lambda>refresh_token.
     bnd (refresh_tokens w g refresh_token) (\<lambda>tokens.
     bnd (save_tokens tokens) (\<lambda>_.
     bnd (lift (getitem tokens ''access_token'')) (\<lambda>access_token.
     bnd (get_broadcaster_id w g access_token) (\<lambda>broadcaster_id.
     ret (access_token, broadcaster_id))))))"

definition run_preset_broadcaster :: "world \<Rightarrow> globals \<Rightarrow> json \<Rightarrow> (json \<times> json) prog" where
  "run_preset_broadcaster w g tokens =
     except_HTTPError (run_preset_try w g tokens) (run_preset_except w g tokens)"

text \<open>\<^verbatim>\<open>run_preset\<close>, lines 418 to 420: the confirmation.\<close>

definition run_preset_confirm :: "world \<Rightarrow> config \<Rightarrow> unit prog" where
  "run_preset_confirm w cfg =
     (if (case prompts_confirm cfg of None \<Rightarrow> True | Some b \<Rightarrow> b) then
        bnd (input w (CHR 0x0A # ''Proceed? [Y/n]: '')) (\<lambda>answer.
        if lower answer = ''n'' then die ''Aborted'' else ret ())
      else ret ())"

text \<open>
  \<^verbatim>\<open>run_preset\<close>, lines 388 to 416: everything before the confirmation. It yields the
  variables the rest reads: the access token, the broadcaster id, the title and the tags.
\<close>

definition run_preset_prepare ::
  "world \<Rightarrow> globals \<Rightarrow> config \<Rightarrow> string \<Rightarrow> (preset \<times> json \<times> json \<times> string \<times> string list) prog" where
  "run_preset_prepare w g cfg key =
     bnd (get_preset cfg key) (\<lambda>preset.
     bnd (run_preset_tokens w g) (\<lambda>tokens.
     bnd (run_preset_broadcaster w g tokens) (\<lambda>(access_token, broadcaster_id).
     bnd (prompt w ''Default title'' (defaults_title preset)) (\<lambda>title.
     bnd (prompt w ''Go-live notification (stored only)''
            (defaults_go_live_notification preset)) (\<lambda>_.
     let tags = (case preset_tags preset of None \<Rightarrow> [] | Some ts \<Rightarrow> ts) in
     ret (preset, access_token, broadcaster_id, title, tags))))))"

text \<open>\<^verbatim>\<open>run_preset\<close>, lines 422 to 436: the metadata update and the start of OBS.\<close>

definition run_preset_apply ::
  "world \<Rightarrow> globals \<Rightarrow> config \<Rightarrow> preset \<Rightarrow> json \<Rightarrow> json \<Rightarrow> string \<Rightarrow> string list \<Rightarrow> unit prog" where
  "run_preset_apply w g cfg preset access_token broadcaster_id title tags =
     bnd (get_game_id w g access_token (game_category preset)) (\<lambda>game_id.
     let payload = [(''title'', JStr title), (''game_id'', game_id)]
                   @ (if tags \<noteq> [] then [(''tags'', JArr (map JStr tags))] else []) in
     bnd (update_channel w g access_token broadcaster_id payload) (\<lambda>_.
     if (case obs_auto_start cfg of None \<Rightarrow> True | Some b \<Rightarrow> b) then start_obs w g
     else ret ()))"

definition run_preset :: "world \<Rightarrow> globals \<Rightarrow> config \<Rightarrow> string \<Rightarrow> unit prog" where
  "run_preset w g cfg key =
     bnd (run_preset_prepare w g cfg key)
       (\<lambda>(preset, access_token, broadcaster_id, title, tags).
     bnd (run_preset_confirm w cfg) (\<lambda>_.
     run_preset_apply w g cfg preset access_token broadcaster_id title tags))"

subsection \<open>Main dispatcher\<close>

text \<open>
  \<^verbatim>\<open>print_usage\<close> and \<^verbatim>\<open>print_intro_info\<close> only print; \<open>cfg\<close> is what
  \<^verbatim>\<open>load_config\<close> returned and \<open>args\<close> is \<^verbatim>\<open>sys.argv[1:]\<close>.
\<close>

definition main :: "world \<Rightarrow> globals \<Rightarrow> config \<Rightarrow> string list \<Rightarrow> unit prog" where
  "main w g cfg args =
     (case args of
        [] \<Rightarrow> ret ()
      | cmd # rest \<Rightarrow>
          if cmd = ''edit'' then edit_command (case rest of [] \<Rightarrow> None | a # _ \<Rightarrow> Some a)
          else if cmd = ''stop'' then stop_obs w g
          else if cmd = ''intro'' then ret ()
          else if cmd \<in> set (map fst (presets cfg)) then run_preset w g cfg cmd
          else die (''Unknown command or preset: '' @ cmd))"

text \<open>
  The process: the module-level code, then \<^verbatim>\<open>main\<close>. It starts with no call made.
\<close>

definition process ::
  "(string \<Rightarrow> int option) \<Rightarrow> (string \<rightharpoonup> string) \<Rightarrow> world \<Rightarrow> config \<Rightarrow> string list \<Rightarrow> unit prog" where
  "process py_int environ w cfg args =
     bnd (load_environment py_int environ) (\<lambda>g. main w g cfg args)"

section \<open>Observing a run\<close>

text \<open>
  The state after one more call, and the calls a run has added to the history.
\<close>

definition called :: "call \<Rightarrow> state \<Rightarrow> state" where
  "called c s = s\<lparr>trace := trace s @ [c]\<rparr>"

definition new_calls :: "state \<Rightarrow> state \<Rightarrow> call list" where
  "new_calls s s' = drop (length (trace s)) (trace s')"

text \<open>
  The requests as \<^verbatim>\<open>get_broadcaster_id\<close>, \<^verbatim>\<open>refresh_tokens\<close>,
  \<^verbatim>\<open>get_game_id\<close> and \<^verbatim>\<open>update_channel\<close> send them, the connection
  \<^verbatim>\<open>start_obs\<close> opens, and the read of the confirmation.
\<close>

definition users_call :: "globals \<Rightarrow> json \<Rightarrow> call" where
  "users_call g token = Get (API_BASE @ ''/users'') (headers g token) []"

definition refresh_call :: "globals \<Rightarrow> json \<Rightarrow> call" where
  "refresh_call g refresh_token =
     Post (OAUTH_BASE @ ''/token'')
       [(''client_id'', JStr (CLIENT_ID g)),
        (''client_secret'', JStr (CLIENT_SECRET g)),
        (''refresh_token'', refresh_token),
        (''grant_type'', JStr ''refresh_token'')]"

definition games_call :: "globals \<Rightarrow> json \<Rightarrow> string \<Rightarrow> call" where
  "games_call g token name =
     Get (API_BASE @ ''/games'') (headers g token) [(''name'', JStr name)]"

definition patch_call :: "globals \<Rightarrow> json \<Rightarrow> json \<Rightarrow> (string \<times> json) list \<Rightarrow> call" where
  "patch_call g token broadcaster_id payload =
     Patch (API_BASE @ ''/channels'') (headers g token)
       [(''broadcaster_id'', broadcaster_id)] payload"

definition obs_connect_call :: "globals \<Rightarrow> string \<Rightarrow> call" where
  "obs_connect_call g password = ReqClient (OBS_HOST g) (OBS_PORT g) password"

definition proceed_call :: call where
  "proceed_call = Input (CHR 0x0A # ''Proceed? [Y/n]: '')"

text \<open>Kinds of calls: a token refresh, an account lookup, a channel update, a call to OBS.\<close>

definition is_refresh :: "call \<Rightarrow> bool" where
  "is_refresh c =
     (case c of
        Post url d \<Rightarrow> url = OAUTH_BASE @ ''/token'' \<and> map_of d ''grant_type'' = Some (JStr ''refresh_token'')
      | _ \<Rightarrow> False)"

definition is_users :: "call \<Rightarrow> bool" where
  "is_users c = (case c of Get url hs ps \<Rightarrow> url = API_BASE @ ''/users'' | _ \<Rightarrow> False)"

definition is_patch :: "call \<Rightarrow> bool" where
  "is_patch c = (case c of Patch url hs ps js \<Rightarrow> True | _ \<Rightarrow> False)"

definition is_obs :: "call \<Rightarrow> bool" where
  "is_obs c =
     (case c of
        ReqClient host port password \<Rightarrow> True
      | Get_stream_status \<Rightarrow> True
      | Start_stream \<Rightarrow> True
      | Stop_stream \<Rightarrow> True
      | _ \<Rightarrow> False)"

text \<open>
  A mutation is a call that changes something outside the process other than the token
  endpoint: the channel update or any call to OBS. A program is quiet for a kind of
  calls when no run of it adds a call of that kind to the history, and makes at most
  \<open>n\<close> of them when no run adds more than \<open>n\<close>.
\<close>

definition mutation :: "call \<Rightarrow> bool" where
  "mutation c \<longleftrightarrow> is_patch c \<or> is_obs c"

definition quiet :: "(call \<Rightarrow> bool) \<Rightarrow> 'a prog \<Rightarrow> bool" where
  "quiet Q m \<longleftrightarrow> (\<forall>s. filter Q (trace (snd (m s))) = filter Q (trace s))"

definition at_most :: "nat \<Rightarrow> (call \<Rightarrow> bool) \<Rightarrow> 'a prog \<Rightarrow> bool" where
  "at_most n Q m \<longleftrightarrow>
     (\<forall>s. length (filter Q (trace (snd (m s)))) \<le> length (filter Q (trace s)) + n)"

text \<open>
  The JSON body \<^verbatim>\<open>run_preset\<close> builds at lines 422 to 428 from the title, the
  category id and the tags.
\<close>

definition payload_of :: "string \<Rightarrow> json \<Rightarrow> string list \<Rightarrow> (string \<times> json) list" where
  "payload_of title game_id tags =
     [(''title'', JStr title), (''game_id'', game_id)]
     @ (if tags \<noteq> [] then [(''tags'', JArr (map JStr tags))] else [])"

text \<open>
  Lines 407 to 436 of \<^verbatim>\<open>run_preset\<close>, everything after the \<^verbatim>\<open>try\<close> statement, as
  a program of the two variables the statement sets.
\<close>

definition run_preset_rest ::
  "world \<Rightarrow> globals \<Rightarrow> config \<Rightarrow> preset \<Rightarrow> json \<times> json \<Rightarrow> unit prog" where
  "run_preset_rest w g cfg preset found =
     (case found of (access_token, broadcaster_id) \<Rightarrow>
        bnd (prompt w ''Default title'' (defaults_title preset)) (\<lambda>title.
        bnd (prompt w ''Go-live notification (stored only)''
               (defaults_go_live_notification preset)) (\<lambda>_.
        bnd (run_preset_confirm w cfg) (\<lambda>_.
        run_preset_apply w g cfg preset access_token broadcaster_id title
          (case preset_tags preset of None \<Rightarrow> [] | Some ts \<Rightarrow> ts)))))"

text \<open>
  What the \<^verbatim>\<open>try\<close> statement yields from a call of \<^verbatim>\<open>get_broadcaster_id\<close>:
  its exception, or its result with the access token it was called with.
\<close>

definition retried :: "json \<Rightarrow> (error + json) \<Rightarrow> (error + json \<times> json)" where
  "retried access_token r = (case r of Inl e \<Rightarrow> Inl e | Inr broadcaster_id \<Rightarrow> Inr (access_token, broadcaster_id))"

text \<open>
  Two worlds that differ at most in what the user types at the prompt for the go-live
  notification: the same HTTP and OBS answers, end of input at the same reads, and the
  same line at every read that is not that prompt.
\<close>

definition notification_label :: string where
  "notification_label = ''Go-live notification (stored only)''"

definition same_but_notification :: "world \<Rightarrow> world \<Rightarrow> bool" where
  "same_but_notification w' w \<longleftrightarrow>
     http w' = http w \<and> obs w' = obs w \<and>
     (\<forall>h. stdin w' h = None \<longleftrightarrow> stdin w h = None) \<and>
     (\<forall>h c. (\<forall>d. c \<noteq> Prompt notification_label d) \<longrightarrow>
              stdin w' (h @ [c]) = stdin w (h @ [c]))"

subsection \<open>Example inputs\<close>

text \<open>
  A world for concrete runs. The account lookup answers with \<open>old_status\<close> to the
  access token \<open>old\<close> and with \<open>new_status\<close> to any other; the token endpoint
  answers with \<open>token_status\<close> and the token set (\<open>new\<close>, \<open>r2\<close>); the category
  search returns the ids \<open>games\<close>; the channel update answers with \<open>patch_status\<close>.
  The user accepts every default and types \<open>answer\<close> at a bare \<^verbatim>\<open>input\<close>; OBS
  reports \<open>active\<close>. In the silent world nothing answers.
\<close>

definition example_globals :: globals where
  "example_globals =
     \<lparr>CLIENT_ID = ''cid'', CLIENT_SECRET = ''secret'', REDIRECT_URI = ''http://localhost'',
      OBS_HOST = ''localhost'', OBS_PORT = 4455, OBS_PASSWORD = Some ''pw''\<rparr>"

definition example_tokens :: "string \<Rightarrow> string \<Rightarrow> json" where
  "example_tokens a r = JObj [(''access_token'', JStr a), (''refresh_token'', JStr r)]"

definition example_data :: "string list \<Rightarrow> json" where
  "example_data ids = JObj [(''data'', JArr (map (\<lambda>i. JObj [(''id'', JStr i)]) ids))]"

definition example_world ::
  "nat \<Rightarrow> nat \<Rightarrow> nat \<Rightarrow> string list \<Rightarrow> nat \<Rightarrow> string \<Rightarrow> bool \<Rightarrow> world" where
  "example_world old_status new_status token_status games patch_status answer active =
     \<lparr>http = (\<lambda>h. case rev h of
                    Get url hs ps # _ \<Rightarrow>
                      if url = API_BASE @ ''/users'' then
                        (if map_of hs ''Authorization'' = Some (Bearer (JStr ''old''))
                         then Some (Response old_status (Some (example_data [''42''])))
                         else Some (Response new_status (Some (example_data [''42'']))))
                      else Some (Response 200 (Some (example_data games)))
                  | Post url d # _ \<Rightarrow>
                      Some (Response token_status (Some (example_tokens ''new'' ''r2'')))
                  | Patch url hs ps js # _ \<Rightarrow> Some (Response patch_status None)
                  | _ \<Rightarrow> None),
      stdin = (\<lambda>h. case rev h of Input text # _ \<Rightarrow> Some answer | _ \<Rightarrow> Some []),
      obs = (\<lambda>h. Some active)\<rparr>"

definition silent_world :: world where
  "silent_world = \<lparr>http = (\<lambda>h. None), stdin = (\<lambda>h. None), obs = (\<lambda>h. None)\<rparr>"

definition example_state :: state where
  "example_state = \<lparr>trace = [], token_file = Some (example_tokens ''old'' ''r1'')\<rparr>"

definition example_preset :: "string list option \<Rightarrow> preset" where
  "example_preset ts =
     \<lparr>game_name = ''VALORANT'', game_category = ''VALORANT'',
      defaults_title = ''Ranked grind'', defaults_go_live_notification = ''Live now'',
      preset_tags = ts\<rparr>"

definition example_config :: "bool option \<Rightarrow> bool option \<Rightarrow> string list option \<Rightarrow> config" where
  "example_config confirm auto_start ts =
     \<lparr>prompts_confirm = confirm, obs_auto_start = auto_start,
      presets = [(''valorant'', example_preset ts)]\<rparr>"

definition example_environ :: "(string \<times> string) list" where
  "example_environ =
     [(''TWITCH_CLIENT_ID'', ''cid''), (''TWITCH_CLIENT_SECRET'', ''secret''),
      (''TWITCH_REDIRECT_URI'', ''http://localhost'')]"

text \<open>Python's \<^verbatim>\<open>int\<close> on the two port values of the examples.\<close>

definition example_int :: "string \<Rightarrow> int option" where
  "example_int text = (if text = ''4456'' then Some 4456 else None)"

text \<open>The world \<open>w\<close> with \<open>text\<close> typed at the prompt for the notification.\<close>

definition typed_notification :: "string \<Rightarrow> world \<Rightarrow> world" where
  "typed_notification text w =
     w\<lparr>stdin := (\<lambda>h. case rev h of
                       Prompt label d # _ \<Rightarrow>
                         if label = notification_label then Some text else stdin w h
                     | _ \<Rightarrow> stdin w h)\<rparr>"

section \<open>Lemmas\<close>

subsection \<open>Sequencing\<close>

lemma bnd_Inl: "m s = (Inl e, s') \<Longrightarrow> bnd m f s = (Inl e, s')"
  by (simp add: bnd_def)

lemma bnd_Inr: "m s = (Inr x, s') \<Longrightarrow> bnd m f s = f x s'"
  by (simp add: bnd_def)

lemma bnd_cases:
  assumes "bnd m f s = (r, s'')"
  obtains (fail) e where "m s = (Inl e, s'')" "r = Inl e"
        | (ok) x s' where "m s = (Inr x, s')" "f x s' = (r, s'')"
  using assms by (auto simp: bnd_def split: prod.splits sum.splits)

lemma bnd_ret: "bnd (ret x) f s = f x s"
  by (simp add: bnd_def ret_def)

lemma bnd_lift: "bnd (lift v) f s = (case v of Inl e \<Rightarrow> (Inl e, s) | Inr x \<Rightarrow> f x s)"
  by (simp add: bnd_def lift_def split: sum.splits)

lemma requests_state: "requests w c s = (r, s') \<Longrightarrow> s' = called c s"
  by (auto simp: requests_def called_def Let_def split: option.splits)

lemma get_broadcaster_id_state:
  "get_broadcaster_id w g token s = (r, s') \<Longrightarrow> s' = called (users_call g token) s"
  unfolding get_broadcaster_id_def users_call_def
  by (auto elim!: bnd_cases dest!: requests_state simp: lift_def)

lemma refresh_tokens_state:
  "refresh_tokens w g rt s = (r, s') \<Longrightarrow> s' = called (refresh_call g rt) s"
  unfolding refresh_tokens_def refresh_call_def
  by (auto elim!: bnd_cases dest!: requests_state simp: lift_def)

lemma getitem_not_HTTPError [simp]: "getitem j k \<noteq> Inl (HTTPError n)"
  by (cases j) (auto split: option.splits)

lemma getitem0_not_HTTPError [simp]: "getitem0 j \<noteq> Inl (HTTPError n)"
  by (cases j) (auto split: list.splits)

lemma response_json_not_HTTPError [simp]: "response_json r \<noteq> Inl (HTTPError n)"
  by (auto simp: response_json_def split: option.splits)

lemma raise_for_status_HTTPError:
  "raise_for_status r = Inl e \<longleftrightarrow> e = HTTPError (status_code r) \<and> 400 \<le> status_code r \<and> status_code r < 600"
  by (auto simp: raise_for_status_def)

lemma get_broadcaster_id_HTTPError:
  "fst (get_broadcaster_id w g token s) = Inl (HTTPError n) \<longleftrightarrow>
   (\<exists>r. http w (trace s @ [users_call g token]) = Some r \<and> status_code r = n \<and> 400 \<le> n \<and> n < 600)"
  unfolding get_broadcaster_id_def users_call_def
  by (auto simp: bnd_def lift_def requests_def Let_def raise_for_status_def
           split: option.splits sum.splits prod.splits if_splits)


lemma get_broadcaster_id_eq:
  "get_broadcaster_id w g token s = (fst (get_broadcaster_id w g token s), called (users_call g token) s)"
  using get_broadcaster_id_state [of w g token s] by (cases "get_broadcaster_id w g token s") simp

lemma refresh_tokens_eq:
  "refresh_tokens w g rt s = (fst (refresh_tokens w g rt s), called (refresh_call g rt) s)"
  using refresh_tokens_state [of w g rt s] by (cases "refresh_tokens w g rt s") simp

lemma try_no_token:
  "getitem tokens ''access_token'' = Inl e \<Longrightarrow> run_preset_try w g tokens s = (Inl e, s)"
  by (simp add: run_preset_try_def bnd_lift)

lemma try_token:
  "getitem tokens ''access_token'' = Inr t \<Longrightarrow>
   run_preset_try w g tokens s =
     (retried t (fst (get_broadcaster_id w g t s)), called (users_call g t) s)"
  apply (simp add: run_preset_try_def bnd_lift)
  apply (subst bnd_def)
  apply (subst get_broadcaster_id_eq)
  apply (simp add: retried_def ret_def split: sum.splits)
  done

lemma broadcaster_no_token:
  "getitem tokens ''access_token'' = Inl e \<Longrightarrow> run_preset_broadcaster w g tokens s = (Inl e, s)"
  using getitem_not_HTTPError [of tokens "''access_token''"]
  by (cases e) (auto simp: run_preset_broadcaster_def except_HTTPError_def try_no_token)

lemma broadcaster_handler:
  "getitem tokens ''access_token'' = Inr t \<Longrightarrow>
   fst (get_broadcaster_id w g t s) = Inl (HTTPError n) \<Longrightarrow>
   run_preset_broadcaster w g tokens s = run_preset_except w g tokens (called (users_call g t) s)"
  by (simp add: run_preset_broadcaster_def except_HTTPError_def try_token retried_def)


lemma except_no_token:
  "getitem tokens ''refresh_token'' = Inl e \<Longrightarrow> run_preset_except w g tokens s = (Inl e, s)"
  by (simp add: run_preset_except_def bnd_lift)

lemma except_refresh_failed:
  "getitem tokens ''refresh_token'' = Inr rt \<Longrightarrow>
   fst (refresh_tokens w g rt s) = Inl e \<Longrightarrow>
   run_preset_except w g tokens s = (Inl e, called (refresh_call g rt) s)"
  apply (simp add: run_preset_except_def bnd_lift)
  apply (subst bnd_def)
  apply (subst refresh_tokens_eq)
  apply simp
  done

lemma except_refreshed_no_token:
  "getitem tokens ''refresh_token'' = Inr rt \<Longrightarrow>
   fst (refresh_tokens w g rt s) = Inr new \<Longrightarrow>
   getitem new ''access_token'' = Inl e \<Longrightarrow>
   run_preset_except w g tokens s = (Inl e, (called (refresh_call g rt) s)\<lparr>token_file := Some new\<rparr>)"
  apply (simp add: run_preset_except_def bnd_lift)
  apply (subst bnd_def)
  apply (subst refresh_tokens_eq)
  apply (simp add: bnd_def save_tokens_def lift_def)
  done

lemma except_refreshed:
  "getitem tokens ''refresh_token'' = Inr rt \<Longrightarrow>
   fst (refresh_tokens w g rt s) = Inr new \<Longrightarrow>
   getitem new ''access_token'' = Inr t \<Longrightarrow>
   run_preset_except w g tokens s =
     (retried t (fst (get_broadcaster_id w g t ((called (refresh_call g rt) s)\<lparr>token_file := Some new\<rparr>))),
      called (users_call g t) ((called (refresh_call g rt) s)\<lparr>token_file := Some new\<rparr>))"
  apply (simp add: run_preset_except_def bnd_lift)
  apply (subst bnd_def)
  apply (subst refresh_tokens_eq)
  apply (simp add: save_tokens_def lift_def)
  apply (subst bnd_def, simp)
  apply (subst bnd_def, simp)
  apply (subst bnd_def)
  apply (subst get_broadcaster_id_eq)
  apply (simp add: retried_def ret_def split: sum.splits)
  done

lemma new_calls_called [simp]: "new_calls s (called c s) = [c]"
  by (simp add: new_calls_def called_def)

lemma trace_called [simp]: "trace (called c s) = trace s @ [c]"
  by (simp add: called_def)

lemma token_file_called [simp]: "token_file (called c s) = token_file s"
  by (simp add: called_def)

lemma new_calls_append: "trace s' = trace s @ cs \<Longrightarrow> new_calls s s' = cs"
  by (simp add: new_calls_def)

lemma is_refresh_simps [simp]:
  "is_refresh (refresh_call g rt)" "\<not> is_refresh (users_call g t)"
  by (simp_all add: is_refresh_def refresh_call_def users_call_def)

lemma is_users_simps [simp]:
  "is_users (users_call g t)" "\<not> is_users (refresh_call g rt)"
  by (simp_all add: is_users_def refresh_call_def users_call_def)

lemma refresh_tokens_Inr:
  "fst (refresh_tokens w g rt s) = Inr new \<longleftrightarrow>
   (\<exists>st. http w (trace s @ [refresh_call g rt]) = Some (Response st (Some new)) \<and>
         \<not> (400 \<le> st \<and> st < 600))"
  unfolding refresh_tokens_def refresh_call_def
  apply (auto simp: bnd_def lift_def requests_def Let_def raise_for_status_def response_json_def
           split: option.splits sum.splits prod.splits if_splits)
  subgoal for r by (cases r) auto
  subgoal for r by (cases r) auto
  done

lemma try_token_file: "token_file (snd (run_preset_try w g tokens s)) = token_file s"
  by (cases "getitem tokens ''access_token''") (simp_all add: try_no_token try_token)

subsection \<open>The confirmation and OBS\<close>

lemma obs_call_eq:
  "obs_call w c s =
     (case obs w (trace s @ [c]) of None \<Rightarrow> Inl OBSSDKError | Some b \<Rightarrow> Inr b, called c s)"
  by (simp add: obs_call_def called_def Let_def split: option.splits)

lemma read_line_eq:
  "read_line w c s =
     (case stdin w (trace s @ [c]) of None \<Rightarrow> Inl EOFError | Some l \<Rightarrow> Inr l, called c s)"
  by (simp add: read_line_def called_def Let_def split: option.splits)

lemma new_calls_called2 [simp]: "new_calls s (called c2 (called c1 s)) = [c1, c2]"
  by (simp add: new_calls_def called_def)

lemma new_calls_called3 [simp]: "new_calls s (called c3 (called c2 (called c1 s))) = [c1, c2, c3]"
  by (simp add: new_calls_def called_def)

lemma lower_char_n: "lower_char c = CHR ''n'' \<longleftrightarrow> c = CHR ''n'' \<or> c = CHR ''N''"
proof (cases "65 \<le> (of_char c :: nat) \<and> (of_char c :: nat) \<le> 90")
  case True
  have "char_of (of_char c + 32 :: nat) = CHR ''n'' \<longleftrightarrow> (of_char c :: nat) = 78"
  proof
    assume "char_of (of_char c + 32 :: nat) = CHR ''n''"
    then have "(of_char (char_of (of_char c + 32 :: nat) :: char) :: nat) = of_char CHR ''n''"
      by simp
    then have "(of_char c + 32 :: nat) mod 256 = 110"
      by (simp add: of_char_of)
    then show "(of_char c :: nat) = 78"
      using True by simp
  next
    assume "(of_char c :: nat) = 78"
    then show "char_of (of_char c + 32 :: nat) = CHR ''n''"
      by (simp add: char_of_eq_iff)
  qed
  moreover have "(of_char c :: nat) = 78 \<longleftrightarrow> c = CHR ''N''"
  proof
    assume "(of_char c :: nat) = 78"
    then have "char_of (of_char c :: nat) = (char_of (78 :: nat) :: char)" by simp
    then show "c = CHR ''N''" by (simp add: char_of_eq_iff)
  next
    assume "c = CHR ''N''"
    then show "(of_char c :: nat) = 78" by simp
  qed
  moreover have "c \<noteq> CHR ''n''"
    using True by auto
  ultimately show ?thesis
    using True by (simp add: lower_char_def Let_def)
next
  case False
  moreover have "c \<noteq> CHR ''N''"
    using False by auto
  ultimately show ?thesis
    by (auto simp: lower_char_def Let_def)
qed

lemma lower_n: "lower answer = ''n'' \<longleftrightarrow> answer = ''n'' \<or> answer = ''N''"
proof -
  have "lower answer = ''n'' \<longleftrightarrow> (\<exists>c. answer = [c] \<and> lower_char c = CHR ''n'')"
    by (cases answer) (auto simp: lower_def)
  then show ?thesis
    by (auto simp: lower_char_n)
qed

lemma confirm_skipped:
  "prompts_confirm cfg = Some False \<Longrightarrow> run_preset_confirm w cfg s = (Inr (), s)"
  by (simp add: run_preset_confirm_def ret_def)

lemma confirm_asked:
  "prompts_confirm cfg \<noteq> Some False \<Longrightarrow>
   run_preset_confirm w cfg s =
     (case stdin w (trace s @ [proceed_call]) of
        None \<Rightarrow> Inl EOFError
      | Some answer \<Rightarrow> if lower answer = ''n'' then Inl (SystemExit 1 ''Aborted'') else Inr (),
      called proceed_call s)"
  by (cases "prompts_confirm cfg")
     (auto simp: run_preset_confirm_def input_def bnd_def read_line_eq proceed_call_def
                 die_def raise_def ret_def
           split: option.splits)

lemma run_preset_prepared:
  "run_preset_prepare w g cfg key s0 = (Inr (preset, token, bid, title, tags), s) \<Longrightarrow>
   run_preset w g cfg key s0 =
     (case run_preset_confirm w cfg s of
        (Inl e, s') \<Rightarrow> (Inl e, s')
      | (Inr u, s') \<Rightarrow> run_preset_apply w g cfg preset token bid title tags s')"
  by (simp add: run_preset_def bnd_def split: prod.splits sum.splits)

subsection \<open>The environment\<close>

lemma start_obs_no_password:
  "OBS_PASSWORD g = None \<or> OBS_PASSWORD g = Some [] \<Longrightarrow>
   start_obs w g s = (Inl (SystemExit 1 ''OBS_WS_PASSWORD not set''), s)"
  by (auto simp: start_obs_def die_def raise_def)

lemma stop_obs_no_password:
  "OBS_PASSWORD g = None \<or> OBS_PASSWORD g = Some [] \<Longrightarrow>
   stop_obs w g s = (Inl (SystemExit 1 ''OBS_WS_PASSWORD not set''), s)"
  by (auto simp: stop_obs_def die_def raise_def)

lemma load_environment_no_id:
  "environ ''TWITCH_CLIENT_ID'' = None \<Longrightarrow>
   load_environment py_int environ s =
     (Inl (SystemExit 1 (''Missing required environment variable: '' @ quoted ''TWITCH_CLIENT_ID'')), s)"
  by (simp add: load_environment_def die_def raise_def)

lemma load_environment_no_secret:
  "environ ''TWITCH_CLIENT_ID'' = Some cid \<Longrightarrow> environ ''TWITCH_CLIENT_SECRET'' = None \<Longrightarrow>
   load_environment py_int environ s =
     (Inl (SystemExit 1 (''Missing required environment variable: '' @ quoted ''TWITCH_CLIENT_SECRET'')), s)"
  by (simp add: load_environment_def die_def raise_def)

lemma load_environment_no_uri:
  "environ ''TWITCH_CLIENT_ID'' = Some cid \<Longrightarrow> environ ''TWITCH_CLIENT_SECRET'' = Some secret \<Longrightarrow>
   environ ''TWITCH_REDIRECT_URI'' = None \<Longrightarrow>
   load_environment py_int environ s =
     (Inl (SystemExit 1 (''Missing required environment variable: '' @ quoted ''TWITCH_REDIRECT_URI'')), s)"
  by (simp add: load_environment_def die_def raise_def)

lemma load_environment_missing:
  assumes "environ ''TWITCH_CLIENT_ID'' = None \<or> environ ''TWITCH_CLIENT_SECRET'' = None \<or>
   environ ''TWITCH_REDIRECT_URI'' = None"
  shows "\<exists>v. (v = ''TWITCH_CLIENT_ID'' \<or> v = ''TWITCH_CLIENT_SECRET'' \<or> v = ''TWITCH_REDIRECT_URI'') \<and>
       environ v = None \<and>
       load_environment py_int environ s =
         (Inl (SystemExit 1 (''Missing required environment variable: '' @ quoted v)), s)"
proof (cases "environ ''TWITCH_CLIENT_ID''")
  case None
  with load_environment_no_id [where environ = environ and py_int = py_int and s = s] show ?thesis by blast
next
  case id: (Some cid)
  show ?thesis
  proof (cases "environ ''TWITCH_CLIENT_SECRET''")
    case None
    with id load_environment_no_secret [where environ = environ and py_int = py_int and s = s] show ?thesis by blast
  next
    case secret: (Some secret)
    have "environ ''TWITCH_REDIRECT_URI'' = None"
      using assms id secret by simp
    with id secret load_environment_no_uri [where environ = environ and py_int = py_int and s = s]
    show ?thesis by blast
  qed
qed

lemma load_environment_present:
  "environ ''TWITCH_CLIENT_ID'' = Some cid \<Longrightarrow>
   environ ''TWITCH_CLIENT_SECRET'' = Some secret \<Longrightarrow>
   environ ''TWITCH_REDIRECT_URI'' = Some uri \<Longrightarrow>
   load_environment py_int environ s =
     (case (case environ ''OBS_WS_PORT'' of None \<Rightarrow> Some 4455 | Some p \<Rightarrow> py_int p) of
        None \<Rightarrow> Inl ValueError
      | Some port \<Rightarrow>
          Inr \<lparr>CLIENT_ID = cid, CLIENT_SECRET = secret, REDIRECT_URI = uri,
                OBS_HOST = (case environ ''OBS_WS_HOST'' of None \<Rightarrow> ''localhost'' | Some h \<Rightarrow> h),
                OBS_PORT = port, OBS_PASSWORD = environ ''OBS_WS_PASSWORD''\<rparr>,
      s)"
  by (simp add: load_environment_def ret_def raise_def Let_def split: option.splits)

lemma process_bad_port:
  "environ ''TWITCH_CLIENT_ID'' = Some cid \<Longrightarrow>
   environ ''TWITCH_CLIENT_SECRET'' = Some secret \<Longrightarrow>
   environ ''TWITCH_REDIRECT_URI'' = Some uri \<Longrightarrow>
   environ ''OBS_WS_PORT'' = Some p \<Longrightarrow> py_int p = None \<Longrightarrow>
   process py_int environ w cfg args s = (Inl ValueError, s)"
  by (simp add: process_def bnd_def load_environment_present)

subsection \<open>Calls a program does not make\<close>

lemma quietD: "quiet Q m \<Longrightarrow> m s = (r, s') \<Longrightarrow> filter Q (trace s') = filter Q (trace s)"
  by (auto simp: quiet_def dest: spec [of _ s])

lemma quiet_ret [intro!]: "quiet Q (ret x)"
  by (simp add: quiet_def ret_def)

lemma quiet_raise [intro!]: "quiet Q (raise e)"
  by (simp add: quiet_def raise_def)

lemma quiet_die [intro!]: "quiet Q (die msg)"
  by (simp add: die_def quiet_raise)

lemma quiet_lift [intro!]: "quiet Q (lift v)"
  by (simp add: quiet_def lift_def)

lemma quiet_bnd [intro!]:
  assumes "quiet Q m" and "\<And>x. quiet Q (f x)"
  shows "quiet Q (bnd m f)"
  unfolding quiet_def
proof
  fix s
  show "filter Q (trace (snd (bnd m f s))) = filter Q (trace s)"
  proof (cases "m s")
    case (Pair r s')
    then have m: "filter Q (trace s') = filter Q (trace s)"
      using assms(1) by (rule quietD [rotated])
    show ?thesis
    proof (cases r)
      case (Inl e)
      with Pair m show ?thesis by (simp add: bnd_def)
    next
      case (Inr x)
      obtain r' s'' where f: "f x s' = (r', s'')" by (cases "f x s'")
      from quietD [OF assms(2) f] Pair Inr f m show ?thesis by (simp add: bnd_def)
    qed
  qed
qed

lemma quiet_except [intro!]:
  assumes "quiet Q m" and "quiet Q h"
  shows "quiet Q (except_HTTPError m h)"
  unfolding quiet_def
proof
  fix s
  obtain r s' where m: "m s = (r, s')" by (cases "m s")
  obtain r' s'' where h: "h s' = (r', s'')" by (cases "h s'")
  from quietD [OF assms(1) m] quietD [OF assms(2) h] m h
  show "filter Q (trace (snd (except_HTTPError m h s))) = filter Q (trace s)"
    by (simp add: except_HTTPError_def split: sum.splits error.splits)
qed

lemma quiet_requests: "\<not> Q c \<Longrightarrow> quiet Q (requests w c)"
  by (simp add: quiet_def requests_def Let_def split: option.splits)

lemma quiet_read_line: "\<not> Q c \<Longrightarrow> quiet Q (read_line w c)"
  by (simp add: quiet_def read_line_eq)

lemma quiet_obs_call: "\<not> Q c \<Longrightarrow> quiet Q (obs_call w c)"
  by (simp add: quiet_def obs_call_eq)

lemma quiet_load_tokens [intro!]: "quiet Q load_tokens"
  by (simp add: quiet_def load_tokens_def)

lemma quiet_save_tokens [intro!]: "quiet Q (save_tokens t)"
  by (simp add: quiet_def save_tokens_def)

lemma quiet_if [intro!]: "(b \<Longrightarrow> quiet Q m) \<Longrightarrow> (\<not> b \<Longrightarrow> quiet Q n) \<Longrightarrow> quiet Q (if b then m else n)"
  by simp

lemma quiet_get_broadcaster_id: "quiet mutation (get_broadcaster_id w g t)"
  unfolding get_broadcaster_id_def
  by (intro quiet_bnd quiet_lift quiet_requests) (simp add: mutation_def is_patch_def is_obs_def)

lemma quiet_refresh_tokens: "quiet mutation (refresh_tokens w g t)"
  unfolding refresh_tokens_def
  by (intro quiet_bnd quiet_lift quiet_requests) (simp add: mutation_def is_patch_def is_obs_def)

lemma quiet_exchange_code: "quiet mutation (exchange_code w g t)"
  unfolding exchange_code_def
  by (intro quiet_bnd quiet_lift quiet_requests) (simp add: mutation_def is_patch_def is_obs_def)

lemma quiet_prompt: "quiet mutation (prompt w label dflt)"
  unfolding prompt_def Let_def
  by (intro quiet_bnd quiet_ret quiet_read_line) (simp add: mutation_def is_patch_def is_obs_def)

lemma quiet_input: "quiet mutation (input w text)"
  unfolding input_def
  by (intro quiet_read_line) (simp add: mutation_def is_patch_def is_obs_def)

lemma quiet_tokens: "quiet mutation (run_preset_tokens w g)"
  unfolding run_preset_tokens_def Let_def
  by (intro quiet_bnd quiet_if quiet_ret quiet_load_tokens quiet_save_tokens quiet_input
        quiet_exchange_code)

lemma quiet_broadcaster: "quiet mutation (run_preset_broadcaster w g tokens)"
  unfolding run_preset_broadcaster_def run_preset_try_def run_preset_except_def
  by (intro quiet_except quiet_bnd quiet_lift quiet_ret quiet_save_tokens
        quiet_get_broadcaster_id quiet_refresh_tokens)

lemma quiet_get_preset: "quiet Q (get_preset cfg key)"
  unfolding get_preset_def by (cases "map_of (presets cfg) key") auto

lemma quiet_prepare: "quiet mutation (run_preset_prepare w g cfg key)"
  unfolding run_preset_prepare_def Let_def
  by (intro quiet_bnd quiet_get_preset quiet_tokens)
     (auto intro!: quiet_broadcaster quiet_prompt)

subsection \<open>The metadata update\<close>

lemma requests_eq:
  "requests w c s =
     (case http w (trace s @ [c]) of None \<Rightarrow> Inl ConnectionError | Some r \<Rightarrow> Inr r, called c s)"
  by (simp add: requests_def called_def Let_def split: option.splits)

lemma get_game_id_eq:
  "get_game_id w g token name s =
     (fst (get_game_id w g token name s), called (games_call g token name) s)"
  unfolding get_game_id_def games_call_def
  by (simp add: bnd_def requests_eq lift_def die_def raise_def split: option.splits sum.splits)

lemma get_game_id_found:
  assumes "http w (trace s @ [games_call g token name]) = Some (Response st (Some body))"
      and "\<not> (400 \<le> st \<and> st < 600)"
      and "getitem body ''data'' = Inr (JArr results)"
  shows "fst (get_game_id w g token name s) =
           (case results of
              [] \<Rightarrow> Inl (SystemExit 1 (''Game not found on Twitch: '' @ name))
            | first # rest \<Rightarrow> getitem first ''id'')"
  using assms unfolding get_game_id_def games_call_def
  by (auto simp: bnd_def requests_eq lift_def die_def raise_def raise_for_status_def
                 response_json_def
           split: list.splits)

lemma update_channel_eq:
  "update_channel w g token bid payload s =
     (case http w (trace s @ [patch_call g token bid payload]) of
        None \<Rightarrow> Inl ConnectionError
      | Some r \<Rightarrow> raise_for_status r,
      called (patch_call g token bid payload) s)"
  unfolding update_channel_def patch_call_def
  by (simp add: bnd_def requests_eq lift_def split: option.splits)

lemma run_preset_apply_payload:
  "run_preset_apply w g cfg preset token bid title tags =
     bnd (get_game_id w g token (game_category preset)) (\<lambda>game_id.
     bnd (update_channel w g token bid (payload_of title game_id tags)) (\<lambda>_.
     if obs_auto_start cfg \<noteq> Some False then start_obs w g else ret ()))"
  by (cases "obs_auto_start cfg") (simp_all add: run_preset_apply_def payload_of_def Let_def)

lemma apply_no_game:
  "fst (get_game_id w g token (game_category preset) s) = Inl e \<Longrightarrow>
   run_preset_apply w g cfg preset token bid title tags s =
     (Inl e, called (games_call g token (game_category preset)) s)"
  unfolding run_preset_apply_payload
  by (subst bnd_def, subst get_game_id_eq) simp

lemma apply_game:
  assumes "fst (get_game_id w g token (game_category preset) s) = Inr game_id"
  shows "run_preset_apply w g cfg preset token bid title tags s =
     (case fst (update_channel w g token bid (payload_of title game_id tags)
                  (called (games_call g token (game_category preset)) s)) of
        Inl e \<Rightarrow>
          (Inl e, called (patch_call g token bid (payload_of title game_id tags))
                    (called (games_call g token (game_category preset)) s))
      | Inr u \<Rightarrow>
          (if obs_auto_start cfg \<noteq> Some False then start_obs w g else ret ())
            (called (patch_call g token bid (payload_of title game_id tags))
               (called (games_call g token (game_category preset)) s)))"
proof -
  let ?s1 = "called (games_call g token (game_category preset)) s"
  let ?p = "payload_of title game_id tags"
  have game: "get_game_id w g token (game_category preset) s = (Inr game_id, ?s1)"
    using assms get_game_id_eq [of w g token "game_category preset" s] by simp
  obtain r where upd: "update_channel w g token bid ?p ?s1 = (r, called (patch_call g token bid ?p) ?s1)"
    using update_channel_eq [of w g token bid ?p ?s1] by simp
  have "run_preset_apply w g cfg preset token bid title tags s =
          bnd (update_channel w g token bid ?p)
            (\<lambda>_. if obs_auto_start cfg \<noteq> Some False then start_obs w g else ret ()) ?s1"
    unfolding run_preset_apply_payload using game by (simp add: bnd_def)
  also have "\<dots> = (case r of
        Inl e \<Rightarrow> (Inl e, called (patch_call g token bid ?p) ?s1)
      | Inr u \<Rightarrow> (if obs_auto_start cfg \<noteq> Some False then start_obs w g else ret ())
            (called (patch_call g token bid ?p) ?s1))"
    using upd by (cases r) (simp_all add: bnd_def)
  finally show ?thesis
    using upd by simp
qed

lemma quiet_start_obs_patch: "quiet is_patch (start_obs w g)"
  unfolding start_obs_def
  by (auto intro!: quiet_obs_call simp: is_patch_def split: option.splits)

lemma is_patch_simps [simp]:
  "is_patch (patch_call g t b p)" "\<not> is_patch (games_call g t n)" "\<not> is_patch (users_call g t)"
  "\<not> is_patch (refresh_call g r)" "\<not> is_patch proceed_call"
  by (simp_all add: is_patch_def patch_call_def games_call_def users_call_def refresh_call_def
        proceed_call_def)

lemma mutation_simps [simp]:
  "mutation (patch_call g t b p)" "\<not> mutation (games_call g t n)" "\<not> mutation (users_call g t)"
  "\<not> mutation (refresh_call g r)" "\<not> mutation proceed_call"
  by (simp_all add: mutation_def is_patch_def is_obs_def patch_call_def games_call_def
        users_call_def refresh_call_def proceed_call_def)

lemma is_refresh_more [simp]:
  "\<not> is_refresh (patch_call g t b p)" "\<not> is_refresh (games_call g t n)"
  by (simp_all add: is_refresh_def patch_call_def games_call_def)

lemma quiet_get_game_id: "\<not> Q (games_call g t n) \<Longrightarrow> quiet Q (get_game_id w g t n)"
  unfolding get_game_id_def games_call_def
  by (intro quiet_bnd quiet_lift quiet_requests quiet_if quiet_die) simp

lemma quiet_update_channel: "\<not> Q (patch_call g t b p) \<Longrightarrow> quiet Q (update_channel w g t b p)"
  unfolding update_channel_def patch_call_def
  by (intro quiet_bnd quiet_lift quiet_requests) simp

lemma quiet_start_obs: "(\<And>c. is_obs c \<Longrightarrow> \<not> Q c) \<Longrightarrow> quiet Q (start_obs w g)"
  unfolding start_obs_def
  by (auto intro!: quiet_obs_call simp: is_obs_def split: option.splits)


subsection \<open>The channel updates of a run\<close>

lemma filter_patch_mutation:
  "filter mutation xs = filter mutation ys \<Longrightarrow> filter is_patch xs = filter is_patch ys"
proof -
  assume a: "filter mutation xs = filter mutation ys"
  have "filter is_patch (filter mutation zs) = filter is_patch zs" for zs
    by (induction zs) (auto simp: mutation_def)
  from this [of xs] this [of ys] a show ?thesis by simp
qed

lemma quiet_confirm: "quiet is_patch (run_preset_confirm w cfg)"
  unfolding run_preset_confirm_def input_def
  by (intro quiet_if quiet_bnd quiet_ret quiet_die quiet_read_line) (simp add: is_patch_def)

lemma apply_patch:
  "filter is_patch (trace (snd (run_preset_apply w g cfg preset token bid title tags s))) =
     filter is_patch (trace s) @
     (case fst (get_game_id w g token (game_category preset) s) of
        Inr game_id \<Rightarrow> [patch_call g token bid (payload_of title game_id tags)]
      | Inl e \<Rightarrow> [])"
proof (cases "fst (get_game_id w g token (game_category preset) s)")
  case (Inl e)
  then show ?thesis by (simp add: apply_no_game)
next
  case (Inr game_id)
  let ?s2 = "called (patch_call g token bid (payload_of title game_id tags))
               (called (games_call g token (game_category preset)) s)"
  have obs: "filter is_patch (trace (snd (start_obs w g ?s2))) = filter is_patch (trace ?s2)"
    using quiet_start_obs_patch by (simp add: quiet_def)
  show ?thesis
    using Inr obs by (simp add: apply_game ret_def split: sum.splits)
qed

lemma run_preset_patch:
  "filter is_patch (trace (snd (run_preset w g cfg key s))) =
     filter is_patch (trace s) @
     (case run_preset_prepare w g cfg key s of
        (Inr (preset, token, bid, title, tags), s1) \<Rightarrow>
          (case run_preset_confirm w cfg s1 of
             (Inr u, s2) \<Rightarrow>
               (case fst (get_game_id w g token (game_category preset) s2) of
                  Inr game_id \<Rightarrow> [patch_call g token bid (payload_of title game_id tags)]
                | Inl e \<Rightarrow> [])
           | (Inl e, s2) \<Rightarrow> [])
      | (Inl e, s1) \<Rightarrow> [])"
proof -
  obtain r s1 where prep: "run_preset_prepare w g cfg key s = (r, s1)"
    by (cases "run_preset_prepare w g cfg key s")
  have p1: "filter is_patch (trace s1) = filter is_patch (trace s)"
    using quietD [OF quiet_prepare prep] by (rule filter_patch_mutation)
  show ?thesis
  proof (cases r)
    case (Inl e)
    with prep p1 show ?thesis by (simp add: run_preset_def bnd_def)
  next
    case (Inr x)
    obtain preset token bid title tags where x: "x = (preset, token, bid, title, tags)"
      by (cases x) auto
    obtain c s2 where conf: "run_preset_confirm w cfg s1 = (c, s2)"
      by (cases "run_preset_confirm w cfg s1")
    have p2: "filter is_patch (trace s2) = filter is_patch (trace s1)"
      using quietD [OF quiet_confirm conf] .
    show ?thesis
    proof (cases c)
      case (Inl e)
      with prep Inr x conf p1 p2 show ?thesis
        by (simp add: run_preset_prepared)
    next
      case u: (Inr u)
      with prep Inr x conf p1 p2 show ?thesis
        by (simp add: run_preset_prepared apply_patch)
    qed
  qed
qed

lemma prepare_result:
  assumes "run_preset_prepare w g cfg key s = (Inr (preset, token, bid, title, tags), s1)"
  shows "map_of (presets cfg) key = Some preset \<and>
         tags = (case preset_tags preset of None \<Rightarrow> [] | Some ts \<Rightarrow> ts) \<and>
         (\<exists>sa sb. prompt w ''Default title'' (defaults_title preset) sa = (Inr title, sb))"
  using assms unfolding run_preset_prepare_def get_preset_def Let_def
  by (auto elim!: bnd_cases simp: ret_def die_def raise_def split: option.splits prod.splits)

subsection \<open>The answer to the notification prompt\<close>

lemma requests_cong: "same_but_notification w' w \<Longrightarrow> requests w' c = requests w c"
  by (intro ext) (simp add: requests_def same_but_notification_def)

lemma obs_call_cong: "same_but_notification w' w \<Longrightarrow> obs_call w' c = obs_call w c"
  by (intro ext) (simp add: obs_call_def same_but_notification_def)

lemma read_line_cong:
  "same_but_notification w' w \<Longrightarrow> \<forall>d. c \<noteq> Prompt notification_label d \<Longrightarrow>
   read_line w' c = read_line w c"
  by (intro ext) (simp add: read_line_def same_but_notification_def)

lemma prompt_cong:
  "same_but_notification w' w \<Longrightarrow> label \<noteq> notification_label \<Longrightarrow>
   prompt w' label dflt = prompt w label dflt"
  by (simp add: prompt_def read_line_cong)

lemma input_cong: "same_but_notification w' w \<Longrightarrow> input w' text = input w text"
  by (simp add: input_def read_line_cong)

lemma prompt_discarded_cong:
  assumes "same_but_notification w' w"
  shows "bnd (prompt w' label dflt) (\<lambda>_. k) = bnd (prompt w label dflt) (\<lambda>_. k)"
proof
  fix s :: state
  have "stdin w' (trace s @ [Prompt label dflt]) = None \<longleftrightarrow>
        stdin w (trace s @ [Prompt label dflt]) = None"
    using assms by (simp add: same_but_notification_def)
  then show "bnd (prompt w' label dflt) (\<lambda>_. k) s = bnd (prompt w label dflt) (\<lambda>_. k) s"
    by (cases "stdin w' (trace s @ [Prompt label dflt])";
        cases "stdin w (trace s @ [Prompt label dflt])")
       (simp_all add: prompt_def bnd_def read_line_eq Let_def ret_def)
qed

lemma exchange_code_cong:
  "same_but_notification w' w \<Longrightarrow> exchange_code w' g code = exchange_code w g code"
  by (simp only: exchange_code_def requests_cong)

lemma refresh_tokens_cong:
  "same_but_notification w' w \<Longrightarrow> refresh_tokens w' g t = refresh_tokens w g t"
  by (simp only: refresh_tokens_def requests_cong)

lemma get_broadcaster_id_cong:
  "same_but_notification w' w \<Longrightarrow> get_broadcaster_id w' g t = get_broadcaster_id w g t"
  by (simp only: get_broadcaster_id_def requests_cong)

lemma get_game_id_cong:
  "same_but_notification w' w \<Longrightarrow> get_game_id w' g t n = get_game_id w g t n"
  by (simp only: get_game_id_def requests_cong)

lemma update_channel_cong:
  "same_but_notification w' w \<Longrightarrow> update_channel w' g t b p = update_channel w g t b p"
  by (simp only: update_channel_def requests_cong)

lemma start_obs_cong:
  "same_but_notification w' w \<Longrightarrow> start_obs w' g = start_obs w g"
  by (simp only: start_obs_def obs_call_cong)

lemma tokens_cong:
  "same_but_notification w' w \<Longrightarrow> run_preset_tokens w' g = run_preset_tokens w g"
  by (simp only: run_preset_tokens_def exchange_code_cong input_cong)

lemma broadcaster_cong:
  "same_but_notification w' w \<Longrightarrow>
   run_preset_broadcaster w' g tokens = run_preset_broadcaster w g tokens"
  by (simp only: run_preset_broadcaster_def run_preset_try_def run_preset_except_def
        get_broadcaster_id_cong refresh_tokens_cong)

lemma prepare_cong:
  assumes "same_but_notification w' w"
  shows "run_preset_prepare w' g cfg key = run_preset_prepare w g cfg key"
proof -
  have title: "prompt w' ''Default title'' d = prompt w ''Default title'' d" for d
    by (rule prompt_cong [OF assms]) (simp add: notification_label_def)
  show ?thesis
    unfolding run_preset_prepare_def
    by (simp only: tokens_cong [OF assms] broadcaster_cong [OF assms] title
          prompt_discarded_cong [OF assms])
qed

lemma confirm_cong:
  "same_but_notification w' w \<Longrightarrow> run_preset_confirm w' cfg = run_preset_confirm w cfg"
  by (simp only: run_preset_confirm_def input_cong)

lemma apply_cong:
  "same_but_notification w' w \<Longrightarrow>
   run_preset_apply w' g cfg preset token bid title tags =
   run_preset_apply w g cfg preset token bid title tags"
  by (simp only: run_preset_apply_def get_game_id_cong update_channel_cong start_obs_cong)

lemma run_preset_cong:
  "same_but_notification w' w \<Longrightarrow> run_preset w' g cfg key = run_preset w g cfg key"
  by (simp only: run_preset_def prepare_cong confirm_cong apply_cong)

subsection \<open>Refreshes and account lookups of a run\<close>

lemma at_mostD:
  "at_most n Q m \<Longrightarrow> m s = (r, s') \<Longrightarrow>
   length (filter Q (trace s')) \<le> length (filter Q (trace s)) + n"
  by (auto simp: at_most_def dest: spec [of _ s])

lemma at_most_quiet: "quiet Q m \<Longrightarrow> at_most n Q m"
  by (simp add: at_most_def quiet_def)

lemma at_most_bnd:
  assumes "at_most a Q m" and "\<And>x. at_most b Q (f x)"
  shows "at_most (a + b) Q (bnd m f)"
  unfolding at_most_def
proof
  fix s
  obtain r s' where m: "m s = (r, s')" by (cases "m s")
  note m' = at_mostD [OF assms(1) m]
  show "length (filter Q (trace (snd (bnd m f s)))) \<le> length (filter Q (trace s)) + (a + b)"
  proof (cases r)
    case (Inl e)
    with m m' show ?thesis by (simp add: bnd_def)
  next
    case (Inr x)
    obtain r' s'' where f: "f x s' = (r', s'')" by (cases "f x s'")
    from at_mostD [OF assms(2) f] m Inr f m' show ?thesis by (simp add: bnd_def)
  qed
qed

lemma at_most_except:
  assumes "at_most a Q m" and "at_most b Q h"
  shows "at_most (a + b) Q (except_HTTPError m h)"
  unfolding at_most_def
proof
  fix s
  obtain r s' where m: "m s = (r, s')" by (cases "m s")
  obtain r' s'' where h: "h s' = (r', s'')" by (cases "h s'")
  from at_mostD [OF assms(1) m] at_mostD [OF assms(2) h] m h
  show "length (filter Q (trace (snd (except_HTTPError m h s)))) \<le>
          length (filter Q (trace s)) + (a + b)"
    by (simp add: except_HTTPError_def split: sum.splits error.splits)
qed

lemma at_most_requests: "at_most 1 Q (requests w c)"
  by (simp add: at_most_def requests_eq)

lemma quiet_users_in: "\<not> Q (users_call g t) \<Longrightarrow> quiet Q (get_broadcaster_id w g t)"
  unfolding get_broadcaster_id_def users_call_def
  by (intro quiet_bnd quiet_lift quiet_requests) simp

lemma quiet_refresh_in: "\<not> Q (refresh_call g t) \<Longrightarrow> quiet Q (refresh_tokens w g t)"
  unfolding refresh_tokens_def refresh_call_def
  by (intro quiet_bnd quiet_lift quiet_requests) simp

lemma at_most_bnd_left:
  "quiet Q m \<Longrightarrow> (\<And>x. at_most n Q (f x)) \<Longrightarrow> at_most n Q (bnd m f)"
  using at_most_bnd [of 0 Q m n f] by (simp add: at_most_quiet)

lemma at_most_bnd_right:
  "at_most n Q m \<Longrightarrow> (\<And>x. quiet Q (f x)) \<Longrightarrow> at_most n Q (bnd m f)"
  using at_most_bnd [of n Q m 0 f] by (simp add: at_most_quiet)

lemma at_most_get_broadcaster_id: "at_most 1 Q (get_broadcaster_id w g t)"
  unfolding get_broadcaster_id_def
  by (rule at_most_bnd_right [OF at_most_requests]) (intro quiet_bnd quiet_lift)

lemma at_most_refresh_tokens: "at_most 1 Q (refresh_tokens w g t)"
  unfolding refresh_tokens_def
  by (rule at_most_bnd_right [OF at_most_requests]) (intro quiet_bnd quiet_lift)

lemma at_most_try: "at_most 1 Q (run_preset_try w g tokens)"
  unfolding run_preset_try_def
  by (rule at_most_bnd_left [OF quiet_lift])
     (rule at_most_bnd_right [OF at_most_get_broadcaster_id], rule quiet_ret)

lemma quiet_try_refresh: "quiet is_refresh (run_preset_try w g tokens)"
  unfolding run_preset_try_def
  by (intro quiet_bnd quiet_lift quiet_ret quiet_users_in) simp

lemma at_most_except_users: "at_most 1 is_users (run_preset_except w g tokens)"
  unfolding run_preset_except_def
proof (rule at_most_bnd_left [OF quiet_lift])
  fix t
  have "quiet is_users (refresh_tokens w g t)"
    by (rule quiet_refresh_in) simp
  then show "at_most 1 is_users
      (bnd (refresh_tokens w g t) (\<lambda>tokens.
       bnd (save_tokens tokens) (\<lambda>_.
       bnd (lift (getitem tokens ''access_token'')) (\<lambda>access_token.
       bnd (get_broadcaster_id w g access_token) (\<lambda>broadcaster_id.
       ret (access_token, broadcaster_id))))))"
    by (intro at_most_bnd_left quiet_save_tokens quiet_lift
          at_most_bnd_right [OF at_most_get_broadcaster_id] quiet_ret)
qed

lemma at_most_except_refresh: "at_most 1 is_refresh (run_preset_except w g tokens)"
  unfolding run_preset_except_def
proof (rule at_most_bnd_left [OF quiet_lift])
  fix t
  have "quiet is_refresh (get_broadcaster_id w g a)" for a
    by (rule quiet_users_in) simp
  then show "at_most 1 is_refresh
      (bnd (refresh_tokens w g t) (\<lambda>tokens.
       bnd (save_tokens tokens) (\<lambda>_.
       bnd (lift (getitem tokens ''access_token'')) (\<lambda>access_token.
       bnd (get_broadcaster_id w g access_token) (\<lambda>broadcaster_id.
       ret (access_token, broadcaster_id))))))"
    by (intro at_most_bnd_right [OF at_most_refresh_tokens] quiet_bnd quiet_save_tokens
          quiet_lift quiet_ret)
qed

lemma at_most_broadcaster_users: "at_most 2 is_users (run_preset_broadcaster w g tokens)"
  unfolding run_preset_broadcaster_def
  using at_most_except [OF at_most_try at_most_except_users, of w g tokens w g tokens]
  by (simp add: numeral_2_eq_2)

lemma at_most_broadcaster_refresh: "at_most 1 is_refresh (run_preset_broadcaster w g tokens)"
  unfolding run_preset_broadcaster_def
  using at_most_except [OF at_most_quiet [OF quiet_try_refresh, of 0] at_most_except_refresh,
          of w g tokens w g tokens]
  by simp

lemma quiet_tokens_in:
  assumes "\<And>c. Q c \<Longrightarrow> is_refresh c \<or> is_users c"
  shows "quiet Q (run_preset_tokens w g)"
  unfolding run_preset_tokens_def Let_def exchange_code_def input_def
  by (intro quiet_bnd quiet_if quiet_ret quiet_lift quiet_load_tokens quiet_save_tokens
        quiet_read_line quiet_requests)
     (auto dest!: assms simp: is_refresh_def is_users_def OAUTH_BASE_def API_BASE_def)

lemma quiet_prompt_in:
  assumes "\<And>c. Q c \<Longrightarrow> is_refresh c \<or> is_users c"
  shows "quiet Q (prompt w label dflt)"
  unfolding prompt_def Let_def
  by (intro quiet_bnd quiet_ret quiet_read_line)
     (auto dest!: assms simp: is_refresh_def is_users_def)

lemma quiet_confirm_in:
  assumes "\<And>c. Q c \<Longrightarrow> is_refresh c \<or> is_users c"
  shows "quiet Q (run_preset_confirm w cfg)"
  unfolding run_preset_confirm_def input_def
  by (intro quiet_if quiet_bnd quiet_ret quiet_die quiet_read_line)
     (auto dest!: assms simp: is_refresh_def is_users_def)

lemma quiet_apply_in:
  assumes "\<And>c. Q c \<Longrightarrow> is_refresh c \<or> is_users c"
  shows "quiet Q (run_preset_apply w g cfg preset token bid title tags)"
  unfolding run_preset_apply_payload
  by (intro quiet_bnd quiet_if quiet_ret quiet_get_game_id quiet_update_channel quiet_start_obs)
     (auto dest!: assms
           simp: is_obs_def is_refresh_def is_users_def games_call_def patch_call_def API_BASE_def
           split: call.splits)

lemma at_most_run_preset:
  assumes Q: "\<And>c. Q c \<Longrightarrow> is_refresh c \<or> is_users c"
      and b: "\<And>tokens. at_most n Q (run_preset_broadcaster w g tokens)"
  shows "at_most n Q (run_preset w g cfg key)"
proof -
  have prep: "at_most n Q (run_preset_prepare w g cfg key)"
    unfolding run_preset_prepare_def Let_def
    by (intro at_most_bnd_left quiet_get_preset quiet_tokens_in Q at_most_bnd_right [OF b])
       (auto intro!: quiet_prompt_in Q)
  show ?thesis
    unfolding run_preset_def
    by (rule at_most_bnd_right [OF prep]) (auto intro!: quiet_confirm_in quiet_apply_in Q)
qed

lemma run_preset_bounds:
  "length (filter is_refresh (trace (snd (run_preset w g cfg key s)))) \<le>
     length (filter is_refresh (trace s)) + 1 \<and>
   length (filter is_users (trace (snd (run_preset w g cfg key s)))) \<le>
     length (filter is_users (trace s)) + 2"
  using at_most_run_preset [of is_refresh 1 w g cfg key, OF _ at_most_broadcaster_refresh]
    at_most_run_preset [of is_users 2 w g cfg key, OF _ at_most_broadcaster_users]
  by (simp add: at_most_def)

subsection \<open>The run after the account lookup\<close>

lemma run_preset_from_lookup:
  assumes "map_of (presets cfg) key = Some preset"
      and "run_preset_tokens w g s = (Inr tokens, s0)"
  shows "run_preset w g cfg key s =
           bnd (run_preset_broadcaster w g tokens) (run_preset_rest w g cfg preset) s0"
  using assms
  unfolding run_preset_def run_preset_prepare_def get_preset_def run_preset_rest_def
  by (simp add: bnd_def ret_def Let_def split: prod.splits sum.splits)

lemma quiet_rest_in:
  assumes "\<And>c. Q c \<Longrightarrow> is_refresh c \<or> is_users c"
  shows "quiet Q (run_preset_rest w g cfg preset found)"
  unfolding run_preset_rest_def
  by (cases found) (auto intro!: quiet_bnd quiet_prompt_in quiet_confirm_in quiet_apply_in assms)

lemma bnd_quiet_right:
  assumes "\<And>x. quiet Q (f x)"
  shows "filter Q (trace (snd (bnd m f s))) = filter Q (trace (snd (m s)))"
proof (cases "m s")
  case (Pair r s')
  show ?thesis
  proof (cases r)
    case (Inl e)
    with Pair show ?thesis by (simp add: bnd_def)
  next
    case (Inr x)
    obtain r' s'' where f: "f x s' = (r', s'')" by (cases "f x s'")
    from quietD [OF assms f] Pair Inr f show ?thesis by (simp add: bnd_def)
  qed
qed

section \<open>The claims\<close>

subsection \<open>C1\<close>

text \<open>
  C1. Take a run of \<^verbatim>\<open>run_preset\<close> on a known preset whose token set has an
  access token and a refresh token, and in which the account lookup is rejected with
  status 401. The run makes exactly one refresh request, with that refresh token, and at
  most two account lookups. When the refresh returns a token set with an access token,
  the account lookups of the run are exactly two: the rejected one and one retry with
  the new access token; the \<^verbatim>\<open>try\<close> statement ends as the retry ends, and when the
  retry raises, the run ends with that exception right after the retry, with no
  further call. No run of \<^verbatim>\<open>run_preset\<close> at all makes more than one refresh request
  or more than two account lookups.
\<close>

theorem bounded_retry:
  assumes preset: "map_of (presets cfg) key = Some preset"
      and acquire: "run_preset_tokens w g s = (Inr tokens, s0)"
      and tok: "getitem tokens ''access_token'' = Inr access_token"
      and rej: "http w (trace s0 @ [users_call g access_token]) = Some (Response 401 b)"
      and rtk: "getitem tokens ''refresh_token'' = Inr refresh_token"
  shows "filter is_refresh (trace (snd (run_preset w g cfg key s))) =
           filter is_refresh (trace s) @ [refresh_call g refresh_token] \<and>
         length (filter is_users (trace (snd (run_preset w g cfg key s)))) \<le>
           length (filter is_users (trace s)) + 2 \<and>
         (\<forall>new access_token'.
            fst (refresh_tokens w g refresh_token (called (users_call g access_token) s0)) = Inr new \<and>
            getitem new ''access_token'' = Inr access_token' \<longrightarrow>
            filter is_users (trace (snd (run_preset w g cfg key s))) =
              filter is_users (trace s) @ [users_call g access_token, users_call g access_token'] \<and>
            run_preset_broadcaster w g tokens s0 =
              (retried access_token'
                 (fst (get_broadcaster_id w g access_token'
                    ((called (refresh_call g refresh_token) (called (users_call g access_token) s0))
                       \<lparr>token_file := Some new\<rparr>))),
               called (users_call g access_token')
                 ((called (refresh_call g refresh_token) (called (users_call g access_token) s0))
                    \<lparr>token_file := Some new\<rparr>)) \<and>
            (\<forall>e. fst (get_broadcaster_id w g access_token'
                    ((called (refresh_call g refresh_token) (called (users_call g access_token) s0))
                       \<lparr>token_file := Some new\<rparr>)) = Inl e \<longrightarrow>
                 run_preset w g cfg key s =
                   (Inl e,
                    called (users_call g access_token')
                      ((called (refresh_call g refresh_token) (called (users_call g access_token) s0))
                         \<lparr>token_file := Some new\<rparr>)))) \<and>
         (\<forall>cfg key s.
            length (filter is_refresh (trace (snd (run_preset w g cfg key s)))) \<le>
              length (filter is_refresh (trace s)) + 1 \<and>
            length (filter is_users (trace (snd (run_preset w g cfg key s)))) \<le>
              length (filter is_users (trace s)) + 2)"
proof -
  let ?s1 = "called (users_call g access_token) s0"
  let ?s2 = "called (refresh_call g refresh_token) ?s1"
  note run = run_preset_from_lookup [OF preset acquire]
  have fr: "filter is_refresh (trace (snd (run_preset w g cfg key s))) =
            filter is_refresh (trace (snd (run_preset_broadcaster w g tokens s0)))"
    unfolding run by (rule bnd_quiet_right) (rule quiet_rest_in, simp)
  have fu: "filter is_users (trace (snd (run_preset w g cfg key s))) =
            filter is_users (trace (snd (run_preset_broadcaster w g tokens s0)))"
    unfolding run by (rule bnd_quiet_right) (rule quiet_rest_in, simp)
  have r0: "filter is_refresh (trace s0) = filter is_refresh (trace s)"
    by (rule quietD [OF quiet_tokens_in acquire]) simp
  have u0: "filter is_users (trace s0) = filter is_users (trace s)"
    by (rule quietD [OF quiet_tokens_in acquire]) simp
  have "fst (get_broadcaster_id w g access_token s0) = Inl (HTTPError 401)"
    using rej by (simp add: get_broadcaster_id_HTTPError)
  then have handler: "run_preset_broadcaster w g tokens s0 = run_preset_except w g tokens ?s1"
    by (rule broadcaster_handler [OF tok])
  have main: "filter is_refresh (trace (snd (run_preset w g cfg key s))) =
           filter is_refresh (trace s) @ [refresh_call g refresh_token] \<and>
         (\<forall>new access_token'.
            fst (refresh_tokens w g refresh_token ?s1) = Inr new \<and>
            getitem new ''access_token'' = Inr access_token' \<longrightarrow>
            filter is_users (trace (snd (run_preset w g cfg key s))) =
              filter is_users (trace s) @ [users_call g access_token, users_call g access_token'] \<and>
            run_preset_broadcaster w g tokens s0 =
              (retried access_token'
                 (fst (get_broadcaster_id w g access_token' (?s2\<lparr>token_file := Some new\<rparr>))),
               called (users_call g access_token') (?s2\<lparr>token_file := Some new\<rparr>)))"
  proof (cases "fst (refresh_tokens w g refresh_token ?s1)")
    case (Inl e)
    then show ?thesis
      using except_refresh_failed [OF rtk Inl] handler fr r0 by simp
  next
    case (Inr new)
    show ?thesis
    proof (cases "getitem new ''access_token''")
      case (Inl e)
      then show ?thesis
        using except_refreshed_no_token [OF rtk Inr Inl] Inr handler fr r0 by simp
    next
      case t: (Inr t)
      show ?thesis
        using except_refreshed [OF rtk Inr t] Inr t handler fr fu r0 u0 by simp
    qed
  qed
  have propagates: "run_preset w g cfg key s =
        (Inl e, called (users_call g access_token') (?s2\<lparr>token_file := Some new\<rparr>))"
    if "fst (refresh_tokens w g refresh_token ?s1) = Inr new"
      and "getitem new ''access_token'' = Inr access_token'"
      and "fst (get_broadcaster_id w g access_token' (?s2\<lparr>token_file := Some new\<rparr>)) = Inl e"
    for new access_token' e
    using that main unfolding run by (simp add: bnd_def retried_def)
  from main propagates run_preset_bounds [of w g] show ?thesis
    by blast
qed

text \<open>
  C1 on the example world, run from the stored token set: the lookup rejected twice,
  where the run ends with the second 401 after the three calls; and the lookup rejected
  once, where the run goes on to its end with one refresh and two lookups.
\<close>

theorem bounded_retry_witness:
  "run_preset (example_world 401 401 200 [''509658''] 204 [] False) example_globals
     (example_config None None None) ''valorant'' example_state =
     (Inl (HTTPError 401),
      \<lparr>trace = [users_call example_globals (JStr ''old''),
                refresh_call example_globals (JStr ''r1''),
                users_call example_globals (JStr ''new'')],
       token_file = Some (example_tokens ''new'' ''r2'')\<rparr>) \<and>
   filter is_refresh
     (trace (snd (run_preset (example_world 401 200 200 [''509658''] 204 [] False) example_globals
        (example_config None None None) ''valorant'' example_state))) =
     [refresh_call example_globals (JStr ''r1'')] \<and>
   filter is_users
     (trace (snd (run_preset (example_world 401 200 200 [''509658''] 204 [] False) example_globals
        (example_config None None None) ''valorant'' example_state))) =
     [users_call example_globals (JStr ''old''), users_call example_globals (JStr ''new'')] \<and>
   fst (run_preset (example_world 401 200 200 [''509658''] 204 [] False) example_globals
        (example_config None None None) ''valorant'' example_state) = Inr ()"
proof -
  let ?cfg = "example_config None None None"
  let ?tokens = "example_tokens ''old'' ''r1''"
  let ?s3 = "(called (refresh_call example_globals (JStr ''r1''))
               (called (users_call example_globals (JStr ''old'')) example_state))
             \<lparr>token_file := Some (example_tokens ''new'' ''r2'')\<rparr>"
  have preset: "map_of (presets ?cfg) ''valorant'' = Some (example_preset None)"
    by (simp add: example_config_def)
  have acquire: "run_preset_tokens (example_world 401 n 200 [''509658''] 204 [] False)
      example_globals example_state = (Inr ?tokens, example_state)" for n
    by (simp add: run_preset_tokens_def load_tokens_def bnd_def ret_def example_state_def
          example_tokens_def)
  have tok: "getitem ?tokens ''access_token'' = Inr (JStr ''old'')"
    by code_simp
  have rej: "http (example_world 401 n 200 [''509658''] 204 [] False)
      (trace example_state @ [users_call example_globals (JStr ''old'')]) =
      Some (Response 401 (Some (example_data [''42''])))" for n
    by (simp add: example_world_def users_call_def headers_def)
  have rtk: "getitem ?tokens ''refresh_token'' = Inr (JStr ''r1'')"
    by code_simp
  have refreshed: "fst (refresh_tokens (example_world 401 n 200 [''509658''] 204 [] False)
      example_globals (JStr ''r1'')
      (called (users_call example_globals (JStr ''old'')) example_state)) =
      Inr (example_tokens ''new'' ''r2'')" for n
    by (simp add: refresh_tokens_Inr example_world_def refresh_call_def)
  have new: "getitem (example_tokens ''new'' ''r2'') ''access_token'' = Inr (JStr ''new'')"
    by code_simp
  have again: "fst (get_broadcaster_id (example_world 401 401 200 [''509658''] 204 [] False)
      example_globals (JStr ''new'') ?s3) = Inl (HTTPError 401)"
    by code_simp
  have s3: "called (users_call example_globals (JStr ''new'')) ?s3 =
      \<lparr>trace = [users_call example_globals (JStr ''old''),
                refresh_call example_globals (JStr ''r1''),
                users_call example_globals (JStr ''new'')],
       token_file = Some (example_tokens ''new'' ''r2'')\<rparr>"
    by (simp add: called_def example_state_def)
  have start: "trace example_state = []"
    by (simp add: example_state_def)
  have finished: "fst (run_preset (example_world 401 200 200 [''509658''] 204 [] False)
      example_globals ?cfg ''valorant'' example_state) = Inr ()"
    by code_simp
  from bounded_retry [OF preset acquire tok rej rtk, of 401]
       bounded_retry [OF preset acquire tok rej rtk, of 200]
  show ?thesis
    using refreshed new again s3 start finished by simp
qed

subsection \<open>C2\<close>




subsection \<open>C3\<close>




subsection \<open>C4\<close>

text \<open>
  C4. In the handler, with a refresh token in the stored token set: when the refresh
  exchange succeeds (a response whose status is no error and whose body decodes), the
  token file holds exactly the decoded body, the old content being replaced; when it
  fails, the token file is as it was and the failure leaves the handler. The body of the
  \<^verbatim>\<open>try\<close> statement never writes the file.
\<close>

theorem token_replacement:
  assumes rtk: "getitem tokens ''refresh_token'' = Inr refresh_token"
  shows "token_file (snd (run_preset_except w g tokens s)) =
           (case fst (refresh_tokens w g refresh_token s) of
              Inr new \<Rightarrow> Some new
            | Inl e \<Rightarrow> token_file s) \<and>
         (\<forall>e. fst (refresh_tokens w g refresh_token s) = Inl e \<longrightarrow>
              fst (run_preset_except w g tokens s) = Inl e) \<and>
         (\<forall>new. fst (refresh_tokens w g refresh_token s) = Inr new \<longleftrightarrow>
              (\<exists>st. http w (trace s @ [refresh_call g refresh_token]) = Some (Response st (Some new)) \<and>
                    \<not> (400 \<le> st \<and> st < 600))) \<and>
         token_file (snd (run_preset_try w g tokens s)) = token_file s"
proof -
  have tf: "token_file (snd (run_preset_except w g tokens s)) =
           (case fst (refresh_tokens w g refresh_token s) of
              Inr new \<Rightarrow> Some new
            | Inl e \<Rightarrow> token_file s)"
  proof (cases "fst (refresh_tokens w g refresh_token s)")
    case (Inl e)
    then show ?thesis
      using except_refresh_failed [OF rtk Inl] by simp
  next
    case (Inr new)
    show ?thesis
    proof (cases "getitem new ''access_token''")
      case (Inl e)
      then show ?thesis
        using except_refreshed_no_token [OF rtk Inr Inl] Inr by simp
    next
      case t: (Inr t)
      then show ?thesis
        using except_refreshed [OF rtk Inr t] Inr by simp
    qed
  qed
  have fails: "\<forall>e. fst (refresh_tokens w g refresh_token s) = Inl e \<longrightarrow>
              fst (run_preset_except w g tokens s) = Inl e"
    using except_refresh_failed [OF rtk] by simp
  show ?thesis
    using tf fails refresh_tokens_Inr [of w g refresh_token s] try_token_file [of w g tokens s]
    by blast
qed

theorem token_replacement_witness:
  "getitem (example_tokens ''old'' ''r1'') ''refresh_token'' = Inr (JStr ''r1'') \<and>
   fst (refresh_tokens (example_world 401 200 200 [] 204 [] False) example_globals (JStr ''r1'')
          example_state) = Inr (example_tokens ''new'' ''r2'') \<and>
   token_file (snd (run_preset_except (example_world 401 200 200 [] 204 [] False) example_globals
          (example_tokens ''old'' ''r1'') example_state)) = Some (example_tokens ''new'' ''r2'') \<and>
   fst (refresh_tokens (example_world 401 200 400 [] 204 [] False) example_globals (JStr ''r1'')
          example_state) = Inl (HTTPError 400) \<and>
   token_file (snd (run_preset_except (example_world 401 200 400 [] 204 [] False) example_globals
          (example_tokens ''old'' ''r1'') example_state)) = token_file example_state \<and>
   fst (run_preset_except (example_world 401 200 400 [] 204 [] False) example_globals
          (example_tokens ''old'' ''r1'') example_state) = Inl (HTTPError 400)"
proof -
  have h: "getitem (example_tokens ''old'' ''r1'') ''refresh_token'' = Inr (JStr ''r1'')"
    by code_simp
  have ok: "fst (refresh_tokens (example_world 401 200 200 [] 204 [] False) example_globals
          (JStr ''r1'') example_state) = Inr (example_tokens ''new'' ''r2'')"
    by code_simp
  have rejected: "fst (refresh_tokens (example_world 401 200 400 [] 204 [] False) example_globals
          (JStr ''r1'') example_state) = Inl (HTTPError 400)"
    by code_simp
  from token_replacement [OF h, of "example_world 401 200 200 [] 204 [] False" example_globals
         example_state]
       token_replacement [OF h, of "example_world 401 200 400 [] 204 [] False" example_globals
         example_state]
  show ?thesis
    using h ok rejected by simp
qed

subsection \<open>C5\<close>

text \<open>
  C5. In \<^verbatim>\<open>start_obs\<close>, with the password set and the connection made: when the
  status query answers that the stream is active, no \<open>Start_stream\<close> is issued; when
  it answers that the stream is not active, exactly one is. The calls are the
  connection, the query and, in the second case, the start.
\<close>

theorem status_gating:
  assumes pw: "OBS_PASSWORD g = Some password" "password \<noteq> []"
      and conn: "obs w (trace s @ [obs_connect_call g password]) = Some c"
      and status: "obs w (trace s @ [obs_connect_call g password, Get_stream_status]) = Some active"
  shows "count_list (new_calls s (snd (start_obs w g s))) Start_stream = (if active then 0 else 1) \<and>
         new_calls s (snd (start_obs w g s)) =
           [obs_connect_call g password, Get_stream_status] @ (if active then [] else [Start_stream])"
  using pw conn status
  by (simp add: start_obs_def bnd_def obs_call_eq obs_connect_call_def ret_def split: option.splits)

text \<open>
  Both cases of C5 on the example world.
\<close>

theorem status_gating_witness:
  "OBS_PASSWORD example_globals = Some ''pw'' \<and>
   obs (example_world 200 200 200 [] 204 [] True)
     (trace example_state @ [obs_connect_call example_globals ''pw'', Get_stream_status]) =
     Some True \<and>
   count_list (new_calls example_state
     (snd (start_obs (example_world 200 200 200 [] 204 [] True) example_globals example_state)))
     Start_stream = 0 \<and>
   obs (example_world 200 200 200 [] 204 [] False)
     (trace example_state @ [obs_connect_call example_globals ''pw'', Get_stream_status]) =
     Some False \<and>
   count_list (new_calls example_state
     (snd (start_obs (example_world 200 200 200 [] 204 [] False) example_globals example_state)))
     Start_stream = 1"
proof -
  have pw: "OBS_PASSWORD example_globals = Some ''pw''" "''pw'' \<noteq> []"
    by (simp_all add: example_globals_def)
  have o: "obs (example_world 200 200 200 [] 204 [] a) h = Some a" for a h
    by (simp add: example_world_def)
  from status_gating [where w = "example_world 200 200 200 [] 204 [] True" and s = example_state
         and active = True, OF pw o o]
       status_gating [where w = "example_world 200 200 200 [] 204 [] False" and s = example_state
         and active = False, OF pw o o]
  show ?thesis
    using pw o by (simp add: obs_connect_call_def)
qed

subsection \<open>C6\<close>

text \<open>
  C6. When the category search is answered without error status and the \<open>data\<close> of
  its body is a list: for the empty list \<^verbatim>\<open>get_game_id\<close> ends the process with
  \<^verbatim>\<open>Game not found on Twitch\<close>, and so do lines 422 to 436 of \<^verbatim>\<open>run_preset\<close>,
  after the search alone, with no channel update; for a non-empty list the result is
  the \<open>id\<close> of the first element, whatever follows it.
\<close>

theorem category_resolution:
  assumes resp: "http w (trace s @ [games_call g token (game_category preset)]) =
                   Some (Response st (Some body))"
      and ok: "\<not> (400 \<le> st \<and> st < 600)"
      and data: "getitem body ''data'' = Inr (JArr results)"
  shows "(results = [] \<longrightarrow>
            get_game_id w g token (game_category preset) s =
              (Inl (SystemExit 1 (''Game not found on Twitch: '' @ game_category preset)),
               called (games_call g token (game_category preset)) s) \<and>
            run_preset_apply w g cfg preset token bid title tags s =
              (Inl (SystemExit 1 (''Game not found on Twitch: '' @ game_category preset)),
               called (games_call g token (game_category preset)) s) \<and>
            filter is_patch (trace (snd (run_preset_apply w g cfg preset token bid title tags s))) =
              filter is_patch (trace s)) \<and>
         (\<forall>first rest game_id.
            results = first # rest \<and> getitem first ''id'' = Inr game_id \<longrightarrow>
            get_game_id w g token (game_category preset) s =
              (Inr game_id, called (games_call g token (game_category preset)) s))"
proof -
  note found = get_game_id_found [OF resp ok data]
  have eq: "get_game_id w g token (game_category preset) s =
     (fst (get_game_id w g token (game_category preset) s),
      called (games_call g token (game_category preset)) s)"
    by (rule get_game_id_eq)
  show ?thesis
  proof (intro conjI allI impI)
    assume "results = []"
    with found have f: "fst (get_game_id w g token (game_category preset) s) =
        Inl (SystemExit 1 (''Game not found on Twitch: '' @ game_category preset))"
      by simp
    from f eq show "get_game_id w g token (game_category preset) s =
              (Inl (SystemExit 1 (''Game not found on Twitch: '' @ game_category preset)),
               called (games_call g token (game_category preset)) s)"
      by simp
    from apply_no_game [OF f]
    show "run_preset_apply w g cfg preset token bid title tags s =
              (Inl (SystemExit 1 (''Game not found on Twitch: '' @ game_category preset)),
               called (games_call g token (game_category preset)) s)" .
    from apply_no_game [OF f]
    show "filter is_patch (trace (snd (run_preset_apply w g cfg preset token bid title tags s))) =
              filter is_patch (trace s)"
      by simp
  next
    fix first rest game_id
    assume "results = first # rest \<and> getitem first ''id'' = Inr game_id"
    with found have "fst (get_game_id w g token (game_category preset) s) = Inr game_id"
      by simp
    with eq show "get_game_id w g token (game_category preset) s =
              (Inr game_id, called (games_call g token (game_category preset)) s)"
      by simp
  qed
qed

text \<open>
  C6 on the example world: no match, and two matches of which the first is used.
\<close>

theorem category_resolution_witness:
  "get_game_id (example_world 200 200 200 [] 204 [] False) example_globals (JStr ''old'')
     ''VALORANT'' example_state =
     (Inl (SystemExit 1 ''Game not found on Twitch: VALORANT''),
      called (games_call example_globals (JStr ''old'') ''VALORANT'') example_state) \<and>
   run_preset_apply (example_world 200 200 200 [] 204 [] False) example_globals
     (example_config None None None) (example_preset None) (JStr ''old'') (JStr ''42'')
     ''Ranked grind'' [] example_state =
     (Inl (SystemExit 1 ''Game not found on Twitch: VALORANT''),
      called (games_call example_globals (JStr ''old'') ''VALORANT'') example_state) \<and>
   get_game_id (example_world 200 200 200 [''509658'', ''7''] 204 [] False) example_globals
     (JStr ''old'') ''VALORANT'' example_state =
     (Inr (JStr ''509658''),
      called (games_call example_globals (JStr ''old'') ''VALORANT'') example_state)"
proof -
  have cat: "game_category (example_preset None) = ''VALORANT''"
    by (simp add: example_preset_def)
  have resp: "http (example_world 200 200 200 ids 204 [] False)
      (trace example_state @ [games_call example_globals (JStr ''old'')
         (game_category (example_preset None))]) =
      Some (Response 200 (Some (example_data ids)))" for ids
    by (simp add: example_world_def games_call_def API_BASE_def)
  have ok: "\<not> (400 \<le> (200::nat) \<and> (200::nat) < 600)"
    by simp
  have data: "getitem (example_data ids) ''data'' =
      Inr (JArr (map (\<lambda>i. JObj [(''id'', JStr i)]) ids))" for ids
    by (simp add: example_data_def)
  from category_resolution [OF resp ok data, of "[]" "example_config None None None"
         "JStr ''42''" "''Ranked grind''" "[]"]
       category_resolution [OF resp ok data, of "[''509658'', ''7'']"]
  show ?thesis
    using cat by simp
qed

subsection \<open>C7\<close>

text \<open>
  C7. When \<^verbatim>\<open>run_preset\<close> reaches the confirmation, the confirmation is enabled and
  the user answers \<open>n\<close> or \<open>N\<close>, the run ends with \<^verbatim>\<open>die("Aborted")\<close> right after
  the read, and the history holds no channel update and no call to OBS beyond those it
  held before the run.
\<close>

theorem abort_before_mutation:
  assumes prep: "run_preset_prepare w g cfg key s = (Inr x, s1)"
      and flag: "prompts_confirm cfg \<noteq> Some False"
      and ans: "stdin w (trace s1 @ [proceed_call]) = Some answer"
      and decl: "lower answer = ''n''"
  shows "run_preset w g cfg key s = (Inl (SystemExit 1 ''Aborted''), called proceed_call s1) \<and>
         filter mutation (trace (called proceed_call s1)) = filter mutation (trace s)"
proof -
  obtain preset token bid title tags where x: "x = (preset, token, bid, title, tags)"
    by (cases x) auto
  have "run_preset_confirm w cfg s1 = (Inl (SystemExit 1 ''Aborted''), called proceed_call s1)"
    using flag ans decl by (simp add: confirm_asked)
  then have "run_preset w g cfg key s = (Inl (SystemExit 1 ''Aborted''), called proceed_call s1)"
    using run_preset_prepared [OF prep [unfolded x]] by simp
  moreover have "filter mutation (trace s1) = filter mutation (trace s)"
    using quietD [OF quiet_prepare prep] .
  ultimately show ?thesis
    by simp
qed

text \<open>
  C7 on the example world, from an empty history: the four calls of the run, none a
  mutation.
\<close>

theorem abort_before_mutation_witness:
  "run_preset (example_world 200 200 200 [''509658''] 204 ''n'' False) example_globals
     (example_config None None None) ''valorant'' example_state =
     (Inl (SystemExit 1 ''Aborted''),
      called proceed_call
        \<lparr>trace = [users_call example_globals (JStr ''old''),
                  Prompt ''Default title'' ''Ranked grind'',
                  Prompt ''Go-live notification (stored only)'' ''Live now''],
         token_file = Some (example_tokens ''old'' ''r1'')\<rparr>) \<and>
   filter mutation
     [users_call example_globals (JStr ''old''),
      Prompt ''Default title'' ''Ranked grind'',
      Prompt ''Go-live notification (stored only)'' ''Live now'',
      proceed_call] = []"
proof -
  let ?w = "example_world 200 200 200 [''509658''] 204 ''n'' False"
  let ?s1 = "\<lparr>trace = [users_call example_globals (JStr ''old''),
                  Prompt ''Default title'' ''Ranked grind'',
                  Prompt ''Go-live notification (stored only)'' ''Live now''],
         token_file = Some (example_tokens ''old'' ''r1'')\<rparr>"
  have prep: "run_preset_prepare ?w example_globals (example_config None None None) ''valorant''
      example_state = (Inr (example_preset None, JStr ''old'', JStr ''42'', ''Ranked grind'', []), ?s1)"
    by code_simp
  have flag: "prompts_confirm (example_config None None None) \<noteq> Some False"
    by (simp add: example_config_def)
  have ans: "stdin ?w (trace ?s1 @ [proceed_call]) = Some ''n''"
    by (simp add: example_world_def proceed_call_def)
  have decl: "lower ''n'' = ''n''"
    by (simp add: lower_n)
  from abort_before_mutation [OF prep flag ans decl]
  show ?thesis
    by (simp add: called_def example_state_def)
qed

subsection \<open>C8\<close>

text \<open>
  C8, as stated, fails for the connection parameters of OBS: with the three Twitch
  variables set and \<^verbatim>\<open>OBS_WS_PASSWORD\<close> absent, the process starts, updates the
  channel, and only then ends with \<^verbatim>\<open>OBS_WS_PASSWORD not set\<close>.
\<close>

theorem password_checked_after_update:
  "map_of example_environ ''OBS_WS_PASSWORD'' = None \<and>
   fst (process (\<lambda>text. None) (map_of example_environ)
          (example_world 200 200 200 [''509658''] 204 [] False)
          (example_config (Some False) None None) [''valorant''] example_state) =
     Inl (SystemExit 1 ''OBS_WS_PASSWORD not set'') \<and>
   filter (\<lambda>c. is_patch c \<or> is_obs c)
     (trace (snd (process (\<lambda>text. None) (map_of example_environ)
          (example_world 200 200 200 [''509658''] 204 [] False)
          (example_config (Some False) None None) [''valorant''] example_state))) =
     [patch_call (example_globals\<lparr>OBS_PASSWORD := None\<rparr>) (JStr ''old'') (JStr ''42'')
        [(''title'', JStr ''Ranked grind''), (''game_id'', JStr ''509658'')]]"
  by code_simp

text \<open>
  C8, amended. When one of \<^verbatim>\<open>TWITCH_CLIENT_ID\<close>, \<^verbatim>\<open>TWITCH_CLIENT_SECRET\<close>,
  \<^verbatim>\<open>TWITCH_REDIRECT_URI\<close> is absent from the environment, the process ends while the
  module is loaded, with a message that names an absent variable and before any call.
  With the three present, the module load reads the connection parameters of OBS: the
  host or \<open>localhost\<close>; the port, parsed by \<^verbatim>\<open>int\<close>, or 4455, and a port that
  \<^verbatim>\<open>int\<close> rejects ends the process there with \<open>ValueError\<close>, before any call;
  the password as found, absent or not. The password alone is checked later, at the
  start of \<^verbatim>\<open>start_obs\<close> and \<^verbatim>\<open>stop_obs\<close>, where its absence (or the empty
  string) ends the process before any call to OBS.
\<close>

theorem credentials_checked:
  "(environ ''TWITCH_CLIENT_ID'' = None \<or> environ ''TWITCH_CLIENT_SECRET'' = None \<or>
    environ ''TWITCH_REDIRECT_URI'' = None \<longrightarrow>
      (\<exists>v. (v = ''TWITCH_CLIENT_ID'' \<or> v = ''TWITCH_CLIENT_SECRET'' \<or>
            v = ''TWITCH_REDIRECT_URI'') \<and>
           environ v = None \<and>
           process py_int environ w cfg args s =
             (Inl (SystemExit 1 (''Missing required environment variable: '' @ quoted v)), s))) \<and>
   (\<forall>cid secret uri.
      environ ''TWITCH_CLIENT_ID'' = Some cid \<and> environ ''TWITCH_CLIENT_SECRET'' = Some secret \<and>
      environ ''TWITCH_REDIRECT_URI'' = Some uri \<longrightarrow>
      load_environment py_int environ s =
        (case (case environ ''OBS_WS_PORT'' of None \<Rightarrow> Some 4455 | Some p \<Rightarrow> py_int p) of
           None \<Rightarrow> Inl ValueError
         | Some port \<Rightarrow>
             Inr \<lparr>CLIENT_ID = cid, CLIENT_SECRET = secret, REDIRECT_URI = uri,
                   OBS_HOST = (case environ ''OBS_WS_HOST'' of None \<Rightarrow> ''localhost''
                               | Some h \<Rightarrow> h),
                   OBS_PORT = port, OBS_PASSWORD = environ ''OBS_WS_PASSWORD''\<rparr>,
         s) \<and>
      (\<forall>p. environ ''OBS_WS_PORT'' = Some p \<and> py_int p = None \<longrightarrow>
           process py_int environ w cfg args s = (Inl ValueError, s))) \<and>
   (OBS_PASSWORD g = None \<or> OBS_PASSWORD g = Some [] \<longrightarrow>
      start_obs w g s = (Inl (SystemExit 1 ''OBS_WS_PASSWORD not set''), s) \<and>
      stop_obs w g s = (Inl (SystemExit 1 ''OBS_WS_PASSWORD not set''), s))"
proof (intro conjI allI impI)
  assume "environ ''TWITCH_CLIENT_ID'' = None \<or> environ ''TWITCH_CLIENT_SECRET'' = None \<or>
    environ ''TWITCH_REDIRECT_URI'' = None"
  from load_environment_missing [OF this, of py_int s]
  show "\<exists>v. (v = ''TWITCH_CLIENT_ID'' \<or> v = ''TWITCH_CLIENT_SECRET'' \<or>
            v = ''TWITCH_REDIRECT_URI'') \<and>
           environ v = None \<and>
           process py_int environ w cfg args s =
             (Inl (SystemExit 1 (''Missing required environment variable: '' @ quoted v)), s)"
    by (fastforce simp: process_def bnd_def)
next
  fix cid secret uri
  assume "environ ''TWITCH_CLIENT_ID'' = Some cid \<and> environ ''TWITCH_CLIENT_SECRET'' = Some secret \<and>
      environ ''TWITCH_REDIRECT_URI'' = Some uri"
  then show "load_environment py_int environ s =
        (case (case environ ''OBS_WS_PORT'' of None \<Rightarrow> Some 4455 | Some p \<Rightarrow> py_int p) of
           None \<Rightarrow> Inl ValueError
         | Some port \<Rightarrow>
             Inr \<lparr>CLIENT_ID = cid, CLIENT_SECRET = secret, REDIRECT_URI = uri,
                   OBS_HOST = (case environ ''OBS_WS_HOST'' of None \<Rightarrow> ''localhost''
                               | Some h \<Rightarrow> h),
                   OBS_PORT = port, OBS_PASSWORD = environ ''OBS_WS_PASSWORD''\<rparr>,
         s)"
    by (simp add: load_environment_present)
next
  fix cid secret uri p
  assume "environ ''TWITCH_CLIENT_ID'' = Some cid \<and> environ ''TWITCH_CLIENT_SECRET'' = Some secret \<and>
      environ ''TWITCH_REDIRECT_URI'' = Some uri"
    and "environ ''OBS_WS_PORT'' = Some p \<and> py_int p = None"
  then show "process py_int environ w cfg args s = (Inl ValueError, s)"
    by (simp add: process_bad_port)
next
  assume "OBS_PASSWORD g = None \<or> OBS_PASSWORD g = Some []"
  then show "start_obs w g s = (Inl (SystemExit 1 ''OBS_WS_PASSWORD not set''), s)"
    by (rule start_obs_no_password)
next
  assume "OBS_PASSWORD g = None \<or> OBS_PASSWORD g = Some []"
  then show "stop_obs w g s = (Inl (SystemExit 1 ''OBS_WS_PASSWORD not set''), s)"
    by (rule stop_obs_no_password)
qed

text \<open>
  C8 amended, on the example environment: without the client id; with host and port
  set; with neither; with a port that is no number; and with no password for OBS.
\<close>

theorem credentials_checked_witness:
  "process example_int (map_of (tl example_environ)) silent_world
     (example_config None None None) [''valorant''] example_state =
     (Inl (SystemExit 1
        (''Missing required environment variable: '' @ quoted ''TWITCH_CLIENT_ID'')),
      example_state) \<and>
   load_environment example_int
     (map_of (example_environ @ [(''OBS_WS_HOST'', ''studio''), (''OBS_WS_PORT'', ''4456'')]))
     example_state =
     (Inr (example_globals\<lparr>OBS_HOST := ''studio'', OBS_PORT := 4456, OBS_PASSWORD := None\<rparr>),
      example_state) \<and>
   load_environment example_int (map_of example_environ) example_state =
     (Inr (example_globals\<lparr>OBS_PASSWORD := None\<rparr>), example_state) \<and>
   process example_int (map_of (example_environ @ [(''OBS_WS_PORT'', ''obs'')])) silent_world
     (example_config None None None) [''valorant''] example_state =
     (Inl ValueError, example_state) \<and>
   start_obs silent_world (example_globals\<lparr>OBS_PASSWORD := None\<rparr>) example_state =
     (Inl (SystemExit 1 ''OBS_WS_PASSWORD not set''), example_state)"
proof -
  let ?set = "map_of (example_environ @ [(''OBS_WS_HOST'', ''studio''), (''OBS_WS_PORT'', ''4456'')])"
  let ?bad = "map_of (example_environ @ [(''OBS_WS_PORT'', ''obs'')])"
  have missing: "map_of (tl example_environ) ''TWITCH_CLIENT_ID'' = None"
    "map_of (tl example_environ) ''TWITCH_CLIENT_SECRET'' = Some ''secret''"
    "map_of (tl example_environ) ''TWITCH_REDIRECT_URI'' = Some ''http://localhost''"
    by (simp_all add: example_environ_def)
  have present: "map_of example_environ ''TWITCH_CLIENT_ID'' = Some ''cid''"
    "map_of example_environ ''TWITCH_CLIENT_SECRET'' = Some ''secret''"
    "map_of example_environ ''TWITCH_REDIRECT_URI'' = Some ''http://localhost''"
    "map_of example_environ ''OBS_WS_PORT'' = None"
    "map_of example_environ ''OBS_WS_HOST'' = None"
    "map_of example_environ ''OBS_WS_PASSWORD'' = None"
    by (simp_all add: example_environ_def)
  have set: "?set ''TWITCH_CLIENT_ID'' = Some ''cid''"
    "?set ''TWITCH_CLIENT_SECRET'' = Some ''secret''"
    "?set ''TWITCH_REDIRECT_URI'' = Some ''http://localhost''"
    "?set ''OBS_WS_PORT'' = Some ''4456''"
    "?set ''OBS_WS_HOST'' = Some ''studio''"
    "?set ''OBS_WS_PASSWORD'' = None"
    by (simp_all add: example_environ_def)
  have bad: "?bad ''TWITCH_CLIENT_ID'' = Some ''cid''"
    "?bad ''TWITCH_CLIENT_SECRET'' = Some ''secret''"
    "?bad ''TWITCH_REDIRECT_URI'' = Some ''http://localhost''"
    "?bad ''OBS_WS_PORT'' = Some ''obs''"
    by (simp_all add: example_environ_def)
  have int: "example_int ''4456'' = Some 4456" "example_int ''obs'' = None"
    by (simp_all add: example_int_def)
  have pw: "OBS_PASSWORD (example_globals\<lparr>OBS_PASSWORD := None\<rparr>) = None"
    by simp
  from credentials_checked [where environ = "map_of (tl example_environ)"
         and py_int = example_int and w = silent_world
         and cfg = "example_config None None None" and args = "[''valorant'']"
         and s = example_state and g = "example_globals\<lparr>OBS_PASSWORD := None\<rparr>"]
  have first: "process example_int (map_of (tl example_environ)) silent_world
     (example_config None None None) [''valorant''] example_state =
     (Inl (SystemExit 1
        (''Missing required environment variable: '' @ quoted ''TWITCH_CLIENT_ID'')),
      example_state)"
    and last: "start_obs silent_world (example_globals\<lparr>OBS_PASSWORD := None\<rparr>) example_state =
     (Inl (SystemExit 1 ''OBS_WS_PASSWORD not set''), example_state)"
    using missing pw by auto
  from credentials_checked [where environ = ?set and py_int = example_int and s = example_state]
  have second: "load_environment example_int ?set example_state =
     (Inr (example_globals\<lparr>OBS_HOST := ''studio'', OBS_PORT := 4456, OBS_PASSWORD := None\<rparr>),
      example_state)"
    using set int by (simp add: example_globals_def)
  from credentials_checked [where environ = "map_of example_environ" and py_int = example_int
         and s = example_state]
  have third: "load_environment example_int (map_of example_environ) example_state =
     (Inr (example_globals\<lparr>OBS_PASSWORD := None\<rparr>), example_state)"
    using present by (simp add: example_globals_def)
  from credentials_checked [where environ = ?bad and py_int = example_int and s = example_state
         and w = silent_world and cfg = "example_config None None None"
         and args = "[''valorant'']"]
  have fourth: "process example_int ?bad silent_world
     (example_config None None None) [''valorant''] example_state = (Inl ValueError, example_state)"
    using bad int by simp
  from first second third fourth last show ?thesis by simp
qed

subsection \<open>C9\<close>

text \<open>
  C9. The channel updates a run of \<^verbatim>\<open>run_preset\<close> adds to the history are: none,
  when the run ends before the update; otherwise the one patch whose JSON body is
  \<open>payload_of title game_id tags\<close>, that is the title, the category id and, only
  when the tags are not empty, the tags. The title is what the prompt for the title
  returned, the tags are those of the preset (none when the preset has no tags), and
  the category id is what \<^verbatim>\<open>get_game_id\<close> returned. What the user types at the prompt
  for the go-live notification changes nothing in the run: result, calls and token file
  are the same in two worlds that differ only there.
\<close>

theorem notification_not_sent:
  "filter is_patch (trace (snd (run_preset w g cfg key s))) =
     filter is_patch (trace s) @
     (case run_preset_prepare w g cfg key s of
        (Inr (preset, token, bid, title, tags), s1) \<Rightarrow>
          (case run_preset_confirm w cfg s1 of
             (Inr u, s2) \<Rightarrow>
               (case fst (get_game_id w g token (game_category preset) s2) of
                  Inr game_id \<Rightarrow> [patch_call g token bid (payload_of title game_id tags)]
                | Inl e \<Rightarrow> [])
           | (Inl e, s2) \<Rightarrow> [])
      | (Inl e, s1) \<Rightarrow> []) \<and>
   (\<forall>preset token bid title tags s1.
      run_preset_prepare w g cfg key s = (Inr (preset, token, bid, title, tags), s1) \<longrightarrow>
      map_of (presets cfg) key = Some preset \<and>
      tags = (case preset_tags preset of None \<Rightarrow> [] | Some ts \<Rightarrow> ts) \<and>
      (\<exists>sa sb. prompt w ''Default title'' (defaults_title preset) sa = (Inr title, sb))) \<and>
   (\<forall>title game_id tags.
      payload_of title game_id tags =
        [(''title'', JStr title), (''game_id'', game_id)]
        @ (if tags \<noteq> [] then [(''tags'', JArr (map JStr tags))] else [])) \<and>
   (\<forall>w'. same_but_notification w' w \<longrightarrow>
      run_preset w' g cfg key s = run_preset w g cfg key s)"
  using run_preset_patch [of w g cfg key s] prepare_result [of w g cfg key s]
    run_preset_cong [of _ w g cfg key]
  by (simp add: payload_of_def)

text \<open>
  C9 on the example world, with a notification typed and with the default accepted.
\<close>

theorem notification_not_sent_witness:
  "same_but_notification
     (typed_notification ''Going live'' (example_world 200 200 200 [''509658''] 204 [] True))
     (example_world 200 200 200 [''509658''] 204 [] True) \<and>
   run_preset
     (typed_notification ''Going live'' (example_world 200 200 200 [''509658''] 204 [] True))
     example_globals (example_config None None (Some [''FPS''])) ''valorant'' example_state =
   run_preset (example_world 200 200 200 [''509658''] 204 [] True)
     example_globals (example_config None None (Some [''FPS''])) ''valorant'' example_state \<and>
   filter is_patch (trace (snd (run_preset (example_world 200 200 200 [''509658''] 204 [] True)
     example_globals (example_config None None (Some [''FPS''])) ''valorant'' example_state))) =
     [patch_call example_globals (JStr ''old'') (JStr ''42'')
        [(''title'', JStr ''Ranked grind''), (''game_id'', JStr ''509658''),
         (''tags'', JArr [JStr ''FPS''])]]"
proof -
  let ?w = "example_world 200 200 200 [''509658''] 204 [] True"
  let ?cfg = "example_config None None (Some [''FPS''])"
  let ?s1 = "\<lparr>trace = [users_call example_globals (JStr ''old''),
                  Prompt ''Default title'' ''Ranked grind'',
                  Prompt ''Go-live notification (stored only)'' ''Live now''],
         token_file = Some (example_tokens ''old'' ''r1'')\<rparr>"
  have same: "same_but_notification (typed_notification ''Going live'' ?w) ?w"
    unfolding same_but_notification_def typed_notification_def example_world_def
    by (auto split: list.splits call.splits)
  have prep: "run_preset_prepare ?w example_globals ?cfg ''valorant'' example_state =
      (Inr (example_preset (Some [''FPS'']), JStr ''old'', JStr ''42'', ''Ranked grind'', [''FPS'']),
       ?s1)"
    by code_simp
  have conf: "run_preset_confirm ?w ?cfg ?s1 = (Inr (), called proceed_call ?s1)"
    by code_simp
  have game: "fst (get_game_id ?w example_globals (JStr ''old'')
      (game_category (example_preset (Some [''FPS'']))) (called proceed_call ?s1)) =
      Inr (JStr ''509658'')"
    by code_simp
  have start: "filter is_patch (trace example_state) = []"
    by (simp add: example_state_def)
  from notification_not_sent [of ?w example_globals ?cfg "''valorant''" example_state]
  show ?thesis
    using same prep conf game start by (simp add: payload_of_def)
qed

subsection \<open>C10\<close>

text \<open>
  C10. With \<^verbatim>\<open>prompts.confirm\<close> false the confirmation asks nothing and the run goes
  on from the same state. Otherwise (the flag true or absent) the answer is read, and
  the step ends the run with \<^verbatim>\<open>die("Aborted")\<close> exactly when the answer in lower case
  is \<open>n\<close>, that is when it is \<open>n\<close> or \<open>N\<close>; every other answer goes on.
  \<^verbatim>\<open>run_preset\<close> ends as the confirmation ends when that raises, and goes on with
  the metadata update otherwise.
\<close>

theorem confirm_aborts_iff_n:
  "(prompts_confirm cfg = Some False \<longrightarrow> run_preset_confirm w cfg s = (Inr (), s)) \<and>
   (\<forall>answer. prompts_confirm cfg \<noteq> Some False \<and>
        stdin w (trace s @ [proceed_call]) = Some answer \<longrightarrow>
        run_preset_confirm w cfg s =
          (if lower answer = ''n'' then Inl (SystemExit 1 ''Aborted'') else Inr (),
           called proceed_call s)) \<and>
   (\<forall>answer. lower answer = ''n'' \<longleftrightarrow> answer = ''n'' \<or> answer = ''N'') \<and>
   (\<forall>preset token bid title tags s0.
        run_preset_prepare w g cfg key s0 = (Inr (preset, token, bid, title, tags), s) \<longrightarrow>
        run_preset w g cfg key s0 =
          (case run_preset_confirm w cfg s of
             (Inl e, s') \<Rightarrow> (Inl e, s')
           | (Inr u, s') \<Rightarrow> run_preset_apply w g cfg preset token bid title tags s'))"
proof (intro conjI allI impI)
  assume "prompts_confirm cfg = Some False"
  then show "run_preset_confirm w cfg s = (Inr (), s)"
    by (rule confirm_skipped)
next
  fix answer
  assume "prompts_confirm cfg \<noteq> Some False \<and> stdin w (trace s @ [proceed_call]) = Some answer"
  then show "run_preset_confirm w cfg s =
          (if lower answer = ''n'' then Inl (SystemExit 1 ''Aborted'') else Inr (),
           called proceed_call s)"
    by (simp add: confirm_asked)
next
  fix answer
  show "lower answer = ''n'' \<longleftrightarrow> answer = ''n'' \<or> answer = ''N''"
    by (rule lower_n)
next
  fix preset token bid title tags s0
  assume "run_preset_prepare w g cfg key s0 = (Inr (preset, token, bid, title, tags), s)"
  then show "run_preset w g cfg key s0 =
          (case run_preset_confirm w cfg s of
             (Inl e, s') \<Rightarrow> (Inl e, s')
           | (Inr u, s') \<Rightarrow> run_preset_apply w g cfg preset token bid title tags s')"
    by (rule run_preset_prepared)
qed

text \<open>
  C10 on concrete answers: the flag false; \<open>N\<close> aborts; \<open>no\<close>, a blank before the
  letter and the empty line go on.
\<close>

theorem confirm_aborts_iff_n_witness:
  "run_preset_confirm (example_world 200 200 200 [] 204 ''n'' False)
     (example_config (Some False) None None) example_state = (Inr (), example_state) \<and>
   run_preset_confirm (example_world 200 200 200 [] 204 ''N'' False)
     (example_config None None None) example_state =
     (Inl (SystemExit 1 ''Aborted''), called proceed_call example_state) \<and>
   run_preset_confirm (example_world 200 200 200 [] 204 ''no'' False)
     (example_config (Some True) None None) example_state =
     (Inr (), called proceed_call example_state) \<and>
   run_preset_confirm (example_world 200 200 200 [] 204 '' n'' False)
     (example_config (Some True) None None) example_state =
     (Inr (), called proceed_call example_state) \<and>
   run_preset_confirm (example_world 200 200 200 [] 204 [] False)
     (example_config (Some True) None None) example_state =
     (Inr (), called proceed_call example_state)"
proof -
  have flag: "prompts_confirm (example_config (Some False) None None) = Some False"
    "prompts_confirm (example_config None None None) \<noteq> Some False"
    "prompts_confirm (example_config (Some True) None None) \<noteq> Some False"
    by (simp_all add: example_config_def)
  have answer: "stdin (example_world 200 200 200 [] 204 a False)
      (trace example_state @ [proceed_call]) = Some a" for a
    by (simp add: example_world_def proceed_call_def)
  have low: "lower ''N'' = ''n''" "lower ''no'' \<noteq> ''n''" "lower '' n'' \<noteq> ''n''" "lower [] \<noteq> ''n''"
    by (simp_all add: lower_n)
  from confirm_aborts_iff_n [of "example_config (Some False) None None"
         "example_world 200 200 200 [] 204 ''n'' False" example_state]
       confirm_aborts_iff_n [of "example_config None None None"
         "example_world 200 200 200 [] 204 ''N'' False" example_state]
       confirm_aborts_iff_n [of "example_config (Some True) None None"
         "example_world 200 200 200 [] 204 ''no'' False" example_state]
       confirm_aborts_iff_n [of "example_config (Some True) None None"
         "example_world 200 200 200 [] 204 '' n'' False" example_state]
       confirm_aborts_iff_n [of "example_config (Some True) None None"
         "example_world 200 200 200 [] 204 [] False" example_state]
  show ?thesis
    using flag answer low by simp
qed

end
